theory Spec2Isabelle
  imports Complex_Main
begin

section \<open>Python values, errors and dictionaries\<close>

text \<open>
  The two scripts \<^verbatim>\<open>aval-usuario.py\<close> and \<^verbatim>\<open>aval-repos-novos.py\<close> are embedded function by
  function. Conventions of the embedding:

  \<^item> Python \<^verbatim>\<open>int\<close> is \<^typ>\<open>int\<close>. Python \<^verbatim>\<open>float\<close> is \<^typ>\<open>real\<close>: arithmetic is exact, so
    the binary rounding error of IEEE doubles is not part of the model. \<^verbatim>\<open>round(x, n)\<close> is
    rounding of the exact value to \<open>n\<close> decimals, ties to even.
  \<^item> Python \<^verbatim>\<open>str\<close> is \<^typ>\<open>string\<close>, one \<^typ>\<open>char\<close> per code point, which covers the
    code points below 256 (ASCII and the accented letters of Portuguese).
  \<^item> A raise is a value \<open>Inl e\<close> of the result type \<open>py_error + 'a\<close>. \<open>GithubException\<close>
    and \<open>APIError\<close> stand for whatever a call of the hosting platform or of the
    text-generation service raises.
  \<^item> A dictionary whose set of keys depends on the path taken is an association list read
    with \<open>dict_get\<close>, which raises \<^verbatim>\<open>KeyError\<close> on a missing key. A dictionary that every
    path builds with the same keys is a record.
  \<^item> The clock (\<^verbatim>\<open>datetime.now\<close>) and the text-generation service are inputs of the
    functions that read them.
\<close>

datatype py_error = KeyError string | ZeroDivisionError | TypeError | GithubException | APIError

text \<open>
  \<open>PFmt t args\<close> is the text of an f-string (or of a formatting method) with template \<open>t\<close>
  and interpolated values \<open>args\<close>; it is kept unrendered, since rendering a float to decimal
  digits depends on its binary representation. \<open>PUni cs s\<close> is a string literal of the source
  that starts with code points beyond 255 (the emoji \<open>cs\<close>, as numbers) and goes on with \<open>s\<close>.
\<close>

datatype pyval =
    PInt int
  | PFloat real
  | PStr string
  | PUni "nat list" string
  | PDateTime int
  | PFmt string "pyval list"

type_synonym pydict = "(string \<times> pyval) list"

definition dict_get :: "(string \<times> 'v) list \<Rightarrow> string \<Rightarrow> py_error + 'v" where
  "dict_get d k = (case map_of d k of None \<Rightarrow> Inl (KeyError k) | Some v \<Rightarrow> Inr v)"

text \<open>Reading a dictionary value as a number, as the arithmetic operators do.\<close>

fun py_num :: "pyval \<Rightarrow> py_error + real" where
  "py_num (PInt i) = Inr (of_int i)"
| "py_num (PFloat x) = Inr x"
| "py_num v = Inl TypeError"

definition raise_bind :: "py_error + 'a \<Rightarrow> ('a \<Rightarrow> py_error + 'b) \<Rightarrow> py_error + 'b" where
  "raise_bind m f = (case m of Inl e \<Rightarrow> Inl e | Inr v \<Rightarrow> f v)"

text \<open>The expressions of a list, evaluated left to right; the first raise ends the evaluation.\<close>

fun raise_seq :: "(py_error + 'a) list \<Rightarrow> py_error + 'a list" where
  "raise_seq [] = Inr []"
| "raise_seq (m # ms) = raise_bind m (\<lambda>v. raise_bind (raise_seq ms) (\<lambda>vs. Inr (v # vs)))"

text \<open>Python's \<^verbatim>\<open>a / b\<close> on numbers: true division, \<^verbatim>\<open>ZeroDivisionError\<close> when \<open>b\<close> is zero.\<close>

definition py_truediv :: "real \<Rightarrow> real \<Rightarrow> py_error + real" where
  "py_truediv a b = (if b = 0 then Inl ZeroDivisionError else Inr (a / b))"

definition round_half_even :: "real \<Rightarrow> int" where
  "round_half_even x =
     (let f = \<lfloor>x\<rfloor>; r = x - of_int f
      in if r < 1 / 2 then f else if 1 / 2 < r then f + 1 else if even f then f else f + 1)"

text \<open>Python's \<^verbatim>\<open>round(x, ndigits)\<close>.\<close>

definition py_round :: "real \<Rightarrow> nat \<Rightarrow> real" where
  "py_round x ndigits = of_int (round_half_even (x * 10 ^ ndigits)) / 10 ^ ndigits"


section \<open>aval-usuario.py: the commit-frequency heuristic\<close>

text \<open>
  One entry of \<^verbatim>\<open>data["commits"]\<close>, as \<^verbatim>\<open>collect_user_data\<close> builds it (lines 273-280);
  \<open>c_date\<close> is a datetime.
\<close>

record commit =
  c_sha :: string
  c_message :: string
  c_date :: int
  c_files_count :: int
  c_additions :: int
  c_deletions :: int

text \<open>
  A datetime is its number of microseconds since the epoch (UTC); a timedelta is a number
  of microseconds, and its \<^verbatim>\<open>.days\<close> is the floor of its length in days.
\<close>

definition us_per_day :: int where
  "us_per_day = 86400000000"

definition timedelta_days :: "int \<Rightarrow> int" where
  "timedelta_days delta = delta div us_per_day"

text \<open>
  Line 410: \<^verbatim>\<open>since_dt = strptime(since_date, "%Y-%m-%d").replace(tzinfo=utc)\<close>, midnight of
  the day \<open>since_date\<close>. The date is given as its day number since the epoch:
  \<^verbatim>\<open>main\<close> has parsed the same string with the same format (line 711) before the heuristic
  can be reached, so the parse of line 410 succeeds.
\<close>

definition since_dt :: "int \<Rightarrow> int" where
  "since_dt since_date = since_date * us_per_day"

text \<open>Line 412: \<^verbatim>\<open>weeks_in_period = max(1, (now_dt - since_dt).days // 7)\<close>.\<close>

definition weeks_in_period :: "int \<Rightarrow> int \<Rightarrow> int" where
  "weeks_in_period since_date now_dt =
     max 1 (timedelta_days (now_dt - since_dt since_date) div 7)"

text \<open>
  Lines 398-448. \<open>now_dt\<close> is what \<^verbatim>\<open>datetime.now(timezone.utc)\<close> returns during the call.
\<close>

definition analyze_commit_frequency :: "commit list \<Rightarrow> int \<Rightarrow> int \<Rightarrow> py_error + pydict" where
  "analyze_commit_frequency commits_data since_date now_dt =
     (if commits_data = [] then
        Inr [(''commits_per_week'', PFloat 0),
             (''weeks_inactive'', PInt 0),
             (''frequency_alert'', PStr (''Nenhum commit encontrado no per'' @ [CHR 0xED] @ ''odo'')),
             (''alert_level'', PStr ''critical'')]
      else
        let weeks = weeks_in_period since_date now_dt;
            commits_total = int (length commits_data)
        in raise_bind (py_truediv (of_int commits_total) (of_int weeks)) (\<lambda>commits_per_week.
          let (weeks_inactive, alert_level, frequency_alert) =
            (if commits_total = 0 then
               (weeks, ''critical'',
                PFmt (''CR'' @ [CHR 0xCD] @ ''TICO: {weeks_in_period} semanas sem nenhum commit'')
                  [PInt weeks])
             else
               let weeks_inactive = max 0 (weeks - commits_total) in
               if commits_per_week < 1.0 then
                 if of_int weeks_inactive \<ge> of_int weeks * (0.7 :: real) then
                   (weeks_inactive, ''high'',
                    PFmt ''ALERTA: ~{weeks_inactive:.0f} semanas inativas de {weeks_in_period} semanas''
                      [PInt weeks_inactive, PInt weeks])
                 else if of_int weeks_inactive \<ge> of_int weeks * (0.4 :: real) then
                   (weeks_inactive, ''medium'',
                    PFmt (''Aten'' @ [CHR 0xE7, CHR 0xE3] @
                          ''o: ~{weeks_inactive:.0f} semanas com baixa atividade de {weeks_in_period} semanas'')
                      [PInt weeks_inactive, PInt weeks])
                 else if commits_per_week < 0.5 then
                   (weeks_inactive, ''low'',
                    PFmt (''Frequ'' @ [CHR 0xEA] @ ''ncia baixa: {commits_per_week:.1f} commits/semana'')
                      [PFloat commits_per_week])
                 else
                   (weeks_inactive, ''normal'',
                    PFmt (''Frequ'' @ [CHR 0xEA] @ ''ncia adequada: {commits_per_week:.1f} commits/semana'')
                      [PFloat commits_per_week])
               else
                 (weeks_inactive, ''good'',
                  PFmt (''Boa frequ'' @ [CHR 0xEA] @ ''ncia: {commits_per_week:.1f} commits/semana'')
                    [PFloat commits_per_week]))
          in Inr [(''commits_per_week'', PFloat (py_round commits_per_week 2)),
                  (''weeks_inactive'', PInt weeks_inactive),
                  (''weeks_total'', PInt weeks),
                  (''frequency_alert'', frequency_alert),
                  (''alert_level'', PStr alert_level)]))"


section \<open>aval-usuario.py: the collected data and the report\<close>

text \<open>
  The dictionaries of \<^verbatim>\<open>collect_user_data\<close> (lines 250-264, 310-318, 333-345, 363-380).
  Every one of them is built with a fixed set of keys, so each is a record. A review entry
  has the key \<^verbatim>\<open>path\<close> only when it is a code-review comment.
\<close>

record issue =
  i_number :: int
  i_title :: string
  i_body :: string
  i_state :: string
  i_created_at :: int
  i_comments_count :: int
  i_labels :: "string list"

record pull =
  p_number :: int
  p_title :: string
  p_body :: string
  p_state :: string
  p_created_at :: int
  p_merged :: bool
  p_comments_count :: int
  p_review_comments_count :: int
  p_additions :: int
  p_deletions :: int
  p_changed_files :: int

record review =
  r_type :: string
  r_body :: string
  r_created_at :: int
  r_pr_number :: int
  r_path :: "string option"

record stats =
  commits_count :: int
  issues_count :: int
  prs_count :: int
  reviews_count :: int
  lines_added :: int
  lines_removed :: int
  files_changed :: int

record user_data =
  commits :: "commit list"
  issues :: "issue list"
  prs :: "pull list"
  reviews :: "review list"
  stats :: stats

text \<open>
  The result of a qualitative analysis, \<^verbatim>\<open>{"score": .., "analysis": .., "recommendations": ..}\<close>,
  and the three of them that \<^verbatim>\<open>main\<close> passes to the report (lines 723-727).
\<close>

record qualitative =
  score :: real
  analysis :: pyval
  recommendations :: "string list"

record ai_analysis =
  ai_commits :: qualitative
  ai_issues :: qualitative
  ai_reviews :: qualitative

text \<open>Lines 457-464: the emoji of an alert level, the bar chart for any other value.\<close>

definition alert_emoji :: "pyval \<Rightarrow> pyval" where
  "alert_emoji level =
     (case map_of
        [(PStr ''critical'', PUni [0x1F6A8] []),
         (PStr ''high'', PUni [0x26A0, 0xFE0F] []),
         (PStr ''medium'', PUni [0x26A0, 0xFE0F] []),
         (PStr ''low'', PUni [0x1F4CA] []),
         (PStr ''normal'', PUni [0x2705] []),
         (PStr ''good'', PUni [0x1F3AF] [])] level of
        None \<Rightarrow> PUni [0x1F4CA] []
      | Some e \<Rightarrow> e)"

text \<open>Lines 608-641: the recommendations of an alert level, none for any other value.\<close>

definition frequency_recommendations :: "pyval \<Rightarrow> pyval list" where
  "frequency_recommendations level =
     (case map_of
        [(PStr ''critical'',
          [PUni [0x1F6A8] ('' URGENTE: Estabele'' @ [CHR 0xE7] @ ''a uma rotina de commits di'' @ [CHR 0xE1] @ ''ria''),
           PUni [0x1F4C5] ('' Defina metas semanais m'' @ [CHR 0xED] @ ''nimas de commits''),
           PUni [0x1F91D] '' Considere pair programming para aumentar atividade'']),
         (PStr ''high'',
          [PUni [0x26A0, 0xFE0F] ('' Melhore a consist'' @ [CHR 0xEA] @ ''ncia com commits mais frequentes''),
           PUni [0x1F4CA] ('' Estabele'' @ [CHR 0xE7] @ ''a uma meta de pelo menos 1 commit por semana''),
           PUni [0x1F504] '' Revise seu workflow de desenvolvimento'']),
         (PStr ''medium'',
          [PUni [0x1F4C8] ('' Aumente gradualmente a frequ'' @ [CHR 0xEA] @ ''ncia de commits''),
           PUni [0x23F0] '' Considere commits menores e mais frequentes'',
           PUni [0x1F4DD] ('' Documente melhor seu progresso di'' @ [CHR 0xE1] @ ''rio'')]),
         (PStr ''low'',
          [PUni [0x2705] ('' Mantenha a frequ'' @ [CHR 0xEA] @ ''ncia atual''),
           PUni [0x1F3AF] '' Considere commits ainda mais frequentes para melhor rastreamento'',
           PUni [0x1F4CA] ('' Continue monitorando sua consist'' @ [CHR 0xEA] @ ''ncia'')]),
         (PStr ''normal'',
          [PUni [0x2705] ('' Boa frequ'' @ [CHR 0xEA] @ ''ncia de commits''),
           PUni [0x1F3AF] ('' Mantenha a consist'' @ [CHR 0xEA] @ ''ncia atual''),
           PUni [0x1F4C8] '' Considere pequenos ajustes para otimizar'']),
         (PStr ''good'',
          [PUni [0x1F3AF] ('' Excelente frequ'' @ [CHR 0xEA] @ ''ncia de commits!''),
           PUni [0x2705] ('' Continue com a consist'' @ [CHR 0xEA] @ ''ncia atual''),
           PUni [0x1F31F] '' Sirva de exemplo para outros desenvolvedores''])] level of
        None \<Rightarrow> []
      | Some rs \<Rightarrow> rs)"

text \<open>
  \<^verbatim>\<open>for i, rec in enumerate(recs, 1): report += f"{i}. {rec}\n"\<close>: the values interpolated
  by the loop.
\<close>

definition numbered :: "pyval list \<Rightarrow> pyval list" where
  "numbered recs = concat (map (\<lambda>(i, r). [PInt (int i), r]) (enumerate 1 recs))"

text \<open>\<^verbatim>\<open>a / b\<close> where \<open>a\<close> and \<open>b\<close> are expressions that may raise, \<open>a\<close> evaluated first.\<close>

definition div_expr :: "py_error + real \<Rightarrow> py_error + real \<Rightarrow> py_error + real" where
  "div_expr a b = raise_bind a (\<lambda>x. raise_bind b (\<lambda>y. py_truediv x y))"

text \<open>An interpolation \<^verbatim>\<open>{expr:spec}\<close> of a float expression that may raise.\<close>

definition fmt_expr :: "string \<Rightarrow> py_error + real \<Rightarrow> py_error + pyval" where
  "fmt_expr spec e = raise_bind e (\<lambda>x. Inr (PFmt spec [PFloat x]))"

text \<open>
  Lines 450-665. The report is a string assembled from f-strings. It is modelled by the
  values that the f-strings interpolate, in the order in which Python evaluates them; the
  fixed text between them is left out. A value with a format specification, or the result of
  \<^verbatim>\<open>strftime\<close> or \<^verbatim>\<open>title\<close>, is a \<open>PFmt\<close> of that specification and the value. The date string
  \<^verbatim>\<open>since_date\<close> is shown as the date it denotes. \<open>now_dt\<close> is the clock reading of
  \<^verbatim>\<open>analyze_commit_frequency\<close> and \<open>report_now\<close> the one of line 471.
\<close>

definition generate_detailed_report ::
  "string \<Rightarrow> string \<Rightarrow> user_data \<Rightarrow> ai_analysis \<Rightarrow> int \<Rightarrow> int \<Rightarrow> int \<Rightarrow> py_error + pyval list" where
  "generate_detailed_report username repo_name data ai since_date now_dt report_now =
     raise_bind (analyze_commit_frequency (commits data) since_date now_dt) (\<lambda>frequency_analysis.
     raise_bind (dict_get frequency_analysis ''alert_level'') (\<lambda>level.
       let emoji = alert_emoji level;
           st = stats data;
           fa = dict_get frequency_analysis;
           fnum = (\<lambda>k. raise_bind (fa k) py_num);
           per_month = (\<lambda>count.
             div_expr (Inr (of_int count))
               (raise_bind (div_expr (fnum ''weeks_total'') (Inr 4)) (\<lambda>m. Inr (max 1 m))))
       in raise_seq
        ([Inr (PStr username),
          Inr (PStr repo_name),
          Inr (PFmt ''%Y-%m-%d'' [PDateTime (since_dt since_date)]),
          Inr (PFmt ''%Y-%m-%d %H:%M:%S'' [PDateTime report_now]),
          Inr (PInt (commits_count st)),
          Inr (PInt (issues_count st)),
          Inr (PInt (prs_count st)),
          Inr (PInt (reviews_count st)),
          Inr (PFmt '':,'' [PInt (lines_added st)]),
          Inr (PFmt '':,'' [PInt (lines_removed st)]),
          Inr (PInt (files_changed st)),
          Inr emoji,
          fa ''frequency_alert'',
          fa ''commits_per_week'',
          fa ''weeks_total'',
          fa ''weeks_inactive'',
          Inr (PFmt '':.2f'' [PFloat (score (ai_commits ai))]),
          Inr (PFmt '':.2f'' [PFloat (score (ai_issues ai))]),
          Inr (PFmt '':.2f'' [PFloat (score (ai_reviews ai))]),
          Inr (PFmt '':.2f'' [PFloat (score (ai_commits ai))]),
          Inr (analysis (ai_commits ai))]
         @ map Inr (numbered (map PStr (recommendations (ai_commits ai))))
         @ map Inr (concat (map (\<lambda>c. [PFmt ''%Y-%m-%d'' [PDateTime (c_date c)],
                                        PStr (take 100 (c_message c))])
                              (take 5 (commits data))))
         @ [Inr (PFmt '':.2f'' [PFloat (score (ai_issues ai))]),
            Inr (analysis (ai_issues ai))]
         @ map Inr (numbered (map PStr (recommendations (ai_issues ai))))
         @ map Inr (concat (map (\<lambda>i. [PInt (i_number i), PStr (i_state i), PStr (i_title i)])
                              (take 5 (issues data))))
         @ [Inr (PInt (prs_count st)),
            fmt_expr '':.1f''
              (div_expr (Inr (of_int (lines_added st))) (Inr (of_int (max 1 (prs_count st))))),
            fmt_expr '':.1f''
              (div_expr (Inr (of_int (files_changed st))) (Inr (of_int (max 1 (prs_count st)))))]
         @ map Inr (concat (map (\<lambda>pr. [PInt (p_number pr),
                                         (if p_merged pr then PStr ''Merged''
                                          else PFmt ''title()'' [PStr (p_state pr)]),
                                         PStr (p_title pr)])
                              (take 5 (prs data))))
         @ [Inr (PFmt '':.2f'' [PFloat (score (ai_reviews ai))]),
            Inr (analysis (ai_reviews ai))]
         @ map Inr (numbered (map PStr (recommendations (ai_reviews ai))))
         @ [Inr emoji,
            fa ''frequency_alert'',
            fa ''commits_per_week'',
            fa ''weeks_total'',
            fa ''weeks_inactive'',
            fmt_expr '':.1f''
              (raise_bind
                 (div_expr
                    (raise_bind (fnum ''weeks_total'') (\<lambda>wt.
                       raise_bind (fnum ''weeks_inactive'') (\<lambda>wi. Inr (wt - wi))))
                    (fnum ''weeks_total''))
                 (\<lambda>q. Inr (q * 100)))]
         @ map Inr (numbered (frequency_recommendations level))
         @ [fa ''commits_per_week'',
            fmt_expr '':.1f'' (per_month (issues_count st)),
            fmt_expr '':.1f'' (per_month (prs_count st)),
            fmt_expr '':.1f'' (per_month (reviews_count st)),
            fmt_expr '':.2f''
              (div_expr (Inr (of_int (lines_added st))) (Inr (of_int (max 1 (lines_removed st))))),
            fmt_expr '':.1f''
              (div_expr (Inr (of_int (lines_added st))) (Inr (of_int (max 1 (commits_count st)))))])))"


section \<open>The alert levels as the specification words them\<close>

text \<open>
  Section 4.6 of the specification, step 4, for a commit count other than zero: the number
  of inactive weeks and the alert level, the five conditions read top-down. The code nests
  the same conditions under \<^verbatim>\<open>if commits_per_week < 1.0\<close>; the two are compared below.
\<close>

definition spec_weeks_inactive :: "int \<Rightarrow> int \<Rightarrow> int" where
  "spec_weeks_inactive commit_count weeks_total = max 0 (weeks_total - commit_count)"

definition spec_alert_level :: "int \<Rightarrow> int \<Rightarrow> string" where
  "spec_alert_level commit_count weeks_total =
     (let commits_per_week = (of_int commit_count / of_int weeks_total :: real);
          weeks_inactive = spec_weeks_inactive commit_count weeks_total
      in if commits_per_week \<ge> 1.0 then ''good''
         else if of_int weeks_inactive \<ge> 0.7 * (of_int weeks_total :: real) then ''high''
         else if of_int weeks_inactive \<ge> 0.4 * (of_int weeks_total :: real) then ''medium''
         else if commits_per_week < 0.5 then ''low''
         else ''normal'')"


section \<open>Strings and regular expressions\<close>

text \<open>
  The string methods and the two regular expressions that the analyzers use, on the
  code points below 256. There the decimal digits (\<^verbatim>\<open>\d\<close>) are \<^verbatim>\<open>0\<close> to \<^verbatim>\<open>9\<close>, and the white
  space of \<^verbatim>\<open>\s\<close> and of \<^verbatim>\<open>str.strip()\<close> is the set of \<open>is_space\<close>.
\<close>

definition is_digit :: "char \<Rightarrow> bool" where
  "is_digit c = (c \<in> set ''0123456789'')"

definition is_space :: "char \<Rightarrow> bool" where
  "is_space c =
     (c \<in> set [CHR 0x09, CHR 0x0A, CHR 0x0B, CHR 0x0C, CHR 0x0D, CHR 0x1C, CHR 0x1D, CHR 0x1E,
                CHR 0x1F, CHR 0x20, CHR 0x85, CHR 0xA0])"

text \<open>\<^verbatim>\<open>s.strip(chars)\<close> and \<^verbatim>\<open>s.strip()\<close>.\<close>

definition strip_chars :: "(char \<Rightarrow> bool) \<Rightarrow> string \<Rightarrow> string" where
  "strip_chars p s = rev (dropWhile p (rev (dropWhile p s)))"

definition strip :: "string \<Rightarrow> string" where
  "strip s = strip_chars is_space s"

text \<open>
  \<^verbatim>\<open>s.lower()\<close>: the capital letters are \<^verbatim>\<open>A\<close> to \<^verbatim>\<open>Z\<close> and the code points 192 to 222 but
  215 (the multiplication sign); the small letter is 32 further.
\<close>

definition lower_char :: "char \<Rightarrow> char" where
  "lower_char c =
     (let n = (of_char c :: nat)
      in if (65 \<le> n \<and> n \<le> 90) \<or> (192 \<le> n \<and> n \<le> 214) \<or> (216 \<le> n \<and> n \<le> 222)
         then char_of (n + 32) else c)"

definition lower :: "string \<Rightarrow> string" where
  "lower s = map lower_char s"

text \<open>\<^verbatim>\<open>sub in s\<close> on strings.\<close>

fun contains :: "string \<Rightarrow> string \<Rightarrow> bool" where
  "contains sub [] = (sub = [])"
| "contains sub (c # cs) = (take (length sub) (c # cs) = sub \<or> contains sub cs)"

text \<open>\<^verbatim>\<open>text.split('\n')\<close>; \<open>acc\<close> is the current line, reversed.\<close>

fun split_acc :: "string \<Rightarrow> string \<Rightarrow> string list" where
  "split_acc acc [] = [rev acc]"
| "split_acc acc (c # cs) =
     (if c = CHR 0x0A then rev acc # split_acc [] cs else split_acc (c # acc) cs)"

definition split_lines :: "string \<Rightarrow> string list" where
  "split_lines text = split_acc [] text"

text \<open>\<^verbatim>\<open>sep.join(xs)\<close>.\<close>

fun join :: "string \<Rightarrow> string list \<Rightarrow> string" where
  "join sep [] = []"
| "join sep [x] = x"
| "join sep (x # y # ys) = x @ sep @ join sep (y # ys)"

text \<open>
  \<^verbatim>\<open>re.search(r'(\d+\.?\d*)', result)\<close>: the match starts at the first digit and takes the
  digits, then a dot if one follows, then the digits after it. \<open>None\<close> when the text has no
  digit.
\<close>

fun score_match :: "string \<Rightarrow> string option" where
  "score_match [] = None"
| "score_match (c # cs) =
     (if is_digit c then
        let ds = takeWhile is_digit (c # cs);
            rest = dropWhile is_digit (c # cs)
        in (case rest of
              [] \<Rightarrow> Some ds
            | d # rest' \<Rightarrow>
                if d = CHR ''.'' then Some (ds @ [d] @ takeWhile is_digit rest') else Some ds)
      else score_match cs)"

text \<open>
  \<^verbatim>\<open>float(s)\<close> for a string \<open>s\<close> that \<open>score_match\<close> returns: digits, then maybe a dot and
  digits. The value is the exact decimal number.
\<close>

definition digits_val :: "string \<Rightarrow> nat" where
  "digits_val ds = foldl (\<lambda>a c. 10 * a + (of_char c - 48)) 0 ds"

definition py_float :: "string \<Rightarrow> real" where
  "py_float s =
     (let ip = takeWhile is_digit s;
          fp = drop (length ip + 1) s
      in of_nat (digits_val ip) + of_nat (digits_val fp) / 10 ^ length fp)"

text \<open>
  Lines 95-97 of aval-repos-novos.py, the same in every analysis of both scripts: the
  score read from the text, 0.5 when the text has no number, clamped to the unit interval.
\<close>

definition extract_score :: "string \<Rightarrow> real" where
  "extract_score result =
     (let score = (case score_match result of Some g \<Rightarrow> py_float g | None \<Rightarrow> 0.5)
      in max 0.0 (min 1.0 score))"

text \<open>The keywords of a recommendation line, and the test \<^verbatim>\<open>any(keyword in line.lower() ...)\<close>.\<close>

definition recommendation_keywords :: "string list" where
  "recommendation_keywords = [''recomend'', ''sugest'', ''melhor'', ''deve'']"

definition has_keyword :: "string \<Rightarrow> bool" where
  "has_keyword line = list_ex (\<lambda>keyword. contains keyword (lower line)) recommendation_keywords"


section \<open>aval-repos-novos.py: the qualitative analyzer\<close>

text \<open>
  An \<^verbatim>\<open>AgileRepositoryAnalyzer\<close> (and a \<^verbatim>\<open>DetailedAgileAnalyzer\<close> of aval-usuario.py): the flag
  \<^verbatim>\<open>enabled\<close> and the text-generation service, \<open>chat messages max_tokens\<close> being the content
  of the first choice of \<^verbatim>\<open>client.chat.completions.create\<close>, or what the call raises. A
  message is its role and its content.
\<close>

record analyzer =
  enabled :: bool
  chat :: "(string \<times> string) list \<Rightarrow> nat \<Rightarrow> py_error + string"

text \<open>Lines 57-72: \<^verbatim>\<open>_call_openai\<close>, \<open>None\<close> when disabled or when the call raises.\<close>

definition call_openai :: "analyzer \<Rightarrow> (string \<times> string) list \<Rightarrow> nat \<Rightarrow> string option" where
  "call_openai self messages max_tokens =
     (if \<not> enabled self then None
      else (case chat self messages max_tokens of
              Inl e \<Rightarrow> None
            | Inr content \<Rightarrow> Some (strip content)))"

text \<open>
  Lines 133-141: \<^verbatim>\<open>_extract_recommendations\<close>. \<^verbatim>\<open>re.sub(r'^[\d\.\-\*\s]+', '', line)\<close> removes the
  leading digits, dots, dashes, asterisks and white space.
\<close>

definition is_marker :: "char \<Rightarrow> bool" where
  "is_marker c = (is_digit c \<or> c = CHR ''.'' \<or> c = CHR ''-'' \<or> c = CHR ''*'' \<or> is_space c)"

definition clean_line :: "string \<Rightarrow> string" where
  "clean_line line = strip (dropWhile is_marker line)"

definition extract_recommendations :: "string \<Rightarrow> string list" where
  "extract_recommendations text =
     take 2
       (map clean_line
          (filter (\<lambda>line. has_keyword line \<and> clean_line line \<noteq> [] \<and> length (clean_line line) > 10)
             (split_lines text)))"

text \<open>The result of a repository-level analysis when no analysis is made (lines 76, 101, 105, 131).\<close>

definition not_available :: qualitative where
  "not_available =
     \<lparr>score = 0.5,
      analysis = PStr (''An'' @ [CHR 0xE1] @ ''lise n'' @ [CHR 0xE3] @ ''o dispon'' @ [CHR 0xED] @ ''vel''),
      recommendations = []\<rparr>"

text \<open>Lines 74-101: \<^verbatim>\<open>analyze_commit_quality\<close>.\<close>

definition analyze_commit_quality :: "analyzer \<Rightarrow> string list \<Rightarrow> qualitative" where
  "analyze_commit_quality self commit_messages =
     (if commit_messages = [] \<or> \<not> enabled self then not_available
      else
        let messages_text = join [CHR 0x0A] (map (\<lambda>msg. ''- '' @ msg) (take 10 commit_messages));
            prompt_messages =
              [(''system'',
                ''Analise as mensagens de commit para pr'' @ [CHR 0xE1] @ ''ticas '' @ [CHR 0xE1]
                @ ''geis. Forne'' @ [CHR 0xE7] @ ''a: 1) Pontua'' @ [CHR 0xE7, CHR 0xE3]
                @ ''o 0.0-1.0 2) An'' @ [CHR 0xE1] @ ''lise breve 3) 2 recomenda''
                @ [CHR 0xE7, CHR 0xF5] @ ''es''),
               (''user'', ''Mensagens de commit:'' @ [CHR 0x0A] @ messages_text)]
        in (case call_openai self prompt_messages 200 of
              None \<Rightarrow> not_available
            | Some result \<Rightarrow>
                if result = [] then not_available
                else \<lparr>score = extract_score result,
                      analysis = PStr result,
                      recommendations = extract_recommendations result\<rparr>))"

text \<open>Lines 103-131: \<^verbatim>\<open>analyze_project_structure\<close>.\<close>

definition analyze_project_structure :: "analyzer \<Rightarrow> string list \<Rightarrow> string \<Rightarrow> qualitative" where
  "analyze_project_structure self file_structure readme_content =
     (if \<not> enabled self then not_available
      else
        let structure_text = join [CHR 0x0A] (take 15 file_structure);
            readme_preview = (if readme_content \<noteq> [] then take 300 readme_content else ''Sem README'');
            prompt_messages =
              [(''system'',
                ''Analise estrutura do projeto para pr'' @ [CHR 0xE1] @ ''ticas '' @ [CHR 0xE1]
                @ ''geis. Forne'' @ [CHR 0xE7] @ ''a: 1) Pontua'' @ [CHR 0xE7, CHR 0xE3]
                @ ''o 0.0-1.0 2) An'' @ [CHR 0xE1] @ ''lise breve 3) 2 recomenda''
                @ [CHR 0xE7, CHR 0xF5] @ ''es''),
               (''user'',
                ''Estrutura:'' @ [CHR 0x0A] @ structure_text @ [CHR 0x0A, CHR 0x0A] @ ''README:''
                @ [CHR 0x0A] @ readme_preview)]
        in (case call_openai self prompt_messages 200 of
              None \<Rightarrow> not_available
            | Some result \<Rightarrow>
                if result = [] then not_available
                else \<lparr>score = extract_score result,
                      analysis = PStr result,
                      recommendations = extract_recommendations result\<rparr>))"


section \<open>aval-repos-novos.py: the metrics and the composite score\<close>

text \<open>Lines 30-37: the weight of each of the six signals.\<close>

definition AGILE_METRICS_WEIGHTS :: "(string \<times> real) list" where
  "AGILE_METRICS_WEIGHTS =
     [(''development_velocity'', 0.25),
      (''collaboration_index'', 0.20),
      (''code_quality'', 0.20),
      (''documentation_maturity'', 0.15),
      (''project_structure'', 0.10),
      (''community_engagement'', 0.10)]"

text \<open>
  The dictionaries that the four metric functions return; the key \<^verbatim>\<open>score\<close> of each is the
  field that ends in \<open>_score\<close>.
\<close>

record velocity_metrics =
  vm_total_commits :: int
  vm_weeks_since_creation :: real
  vm_commits_per_week :: real
  vm_score :: real

record collaboration_metrics =
  cm_total_issues :: int
  cm_total_prs :: int
  cm_unique_contributors :: int
  cm_score :: real

record structure_metrics =
  sm_total_files :: int
  sm_has_readme :: bool
  sm_has_tests :: bool
  sm_has_ci :: bool
  sm_file_structure :: "string list"
  sm_score :: real

record engagement_metrics =
  em_stars :: int
  em_forks :: int
  em_watchers :: int
  em_score :: real

text \<open>
  The six places where a raw quantity becomes a score, \<^verbatim>\<open>min(1.0, raw / ceiling)\<close>: line 158
  (velocity against 5.0), lines 181-182 (issues and pull requests against 20.0, contributors
  against 5.0) and lines 244-246 (stars against 10.0, forks against 5.0, watchers against
  10.0). Each is named after the variable or key that the source assigns it to.
\<close>

definition velocity_score :: "real \<Rightarrow> py_error + real" where
  "velocity_score velocity = raise_bind (py_truediv velocity 5.0) (\<lambda>q. Inr (min 1.0 q))"

definition activity_score :: "int \<Rightarrow> int \<Rightarrow> py_error + real" where
  "activity_score total_issues total_prs =
     raise_bind (py_truediv (of_int (total_issues + total_prs)) 20.0) (\<lambda>q. Inr (min 1.0 q))"

definition diversity_score :: "int \<Rightarrow> py_error + real" where
  "diversity_score total_contributors =
     raise_bind (py_truediv (of_int total_contributors) 5.0) (\<lambda>q. Inr (min 1.0 q))"

definition star_score :: "int \<Rightarrow> py_error + real" where
  "star_score stars = raise_bind (py_truediv (of_int stars) 10.0) (\<lambda>q. Inr (min 1.0 q))"

definition fork_score :: "int \<Rightarrow> py_error + real" where
  "fork_score forks = raise_bind (py_truediv (of_int forks) 5.0) (\<lambda>q. Inr (min 1.0 q))"

definition watch_score :: "int \<Rightarrow> py_error + real" where
  "watch_score watchers = raise_bind (py_truediv (of_int watchers) 10.0) (\<lambda>q. Inr (min 1.0 q))"


text \<open>
  Lines 164-193: \<^verbatim>\<open>calculate_collaboration_index\<close>. An issue or a pull request is the login
  of its author, \<open>None\<close> when it has no user; \<open>get_issues\<close> and \<open>get_pulls\<close> are the lists that
  the platform yields, or what it raises.
\<close>

definition author_logins :: "string option list \<Rightarrow> string list" where
  "author_logins items =
     concat (map (\<lambda>u. case u of None \<Rightarrow> [] | Some login \<Rightarrow> if login \<noteq> [] then [lower login] else [])
               items)"

definition calculate_collaboration_index ::
  "py_error + string option list \<Rightarrow> py_error + string option list \<Rightarrow> collaboration_metrics" where
  "calculate_collaboration_index get_issues get_pulls =
     (case
        raise_bind get_issues (\<lambda>issues.
          raise_bind get_pulls (\<lambda>prs.
            let unique_contributors = remdups (author_logins issues @ author_logins prs);
                total_issues = int (length issues);
                total_prs = int (length prs);
                total_contributors = int (length unique_contributors)
            in raise_bind (activity_score total_issues total_prs) (\<lambda>a.
                 raise_bind (diversity_score total_contributors) (\<lambda>d.
                   raise_bind (py_truediv (a + d) 2.0) (\<lambda>collaboration_score.
                     Inr \<lparr>cm_total_issues = total_issues,
                          cm_total_prs = total_prs,
                          cm_unique_contributors = total_contributors,
                          cm_score = py_round collaboration_score 3\<rparr>)))))
      of
        Inl e \<Rightarrow> \<lparr>cm_total_issues = 0, cm_total_prs = 0, cm_unique_contributors = 0,
                  cm_score = 0.0\<rparr>
      | Inr r \<Rightarrow> r)"

text \<open>
  Lines 238-258: \<^verbatim>\<open>calculate_community_engagement\<close>. Each count is the attribute of the
  repository object (an integer, or \<open>None\<close>), or what reading it raises; \<^verbatim>\<open>x or 0\<close> is
  \<open>or_zero\<close>.
\<close>

definition or_zero :: "int option \<Rightarrow> int" where
  "or_zero x = (case x of None \<Rightarrow> 0 | Some n \<Rightarrow> if n = 0 then 0 else n)"

definition calculate_community_engagement ::
  "py_error + int option \<Rightarrow> py_error + int option \<Rightarrow> py_error + int option \<Rightarrow> engagement_metrics" where
  "calculate_community_engagement stargazers_count forks_count watchers_count =
     (case
        raise_bind stargazers_count (\<lambda>sc. let stars = or_zero sc in
          raise_bind forks_count (\<lambda>fc. let forks = or_zero fc in
            raise_bind watchers_count (\<lambda>wc. let watchers = or_zero wc in
              raise_bind (star_score stars) (\<lambda>ss.
                raise_bind (fork_score forks) (\<lambda>fs.
                  raise_bind (watch_score watchers) (\<lambda>ws.
                    raise_bind (py_truediv (ss + fs + ws) 3.0) (\<lambda>engagement_score.
                      Inr \<lparr>em_stars = stars, em_forks = forks, em_watchers = watchers,
                           em_score = py_round engagement_score 3\<rparr>)))))))
      of
        Inl e \<Rightarrow> \<lparr>em_stars = 0, em_forks = 0, em_watchers = 0, em_score = 0.0\<rparr>
      | Inr r \<Rightarrow> r)"

text \<open>
  The dictionary that \<^verbatim>\<open>analyze_repository_comprehensive\<close> returns (lines 316-327);
  \<open>created_at\<close> is the datetime whose \<^verbatim>\<open>isoformat()\<close> the source stores.
\<close>

record assessment =
  repo_name :: string
  created_at :: int
  final_score :: real
  maturity_level :: string
  velocity_metrics :: velocity_metrics
  collaboration_metrics :: collaboration_metrics
  structure_metrics :: structure_metrics
  engagement_metrics :: engagement_metrics
  ai_commit_analysis :: qualitative
  ai_structure_analysis :: qualitative

text \<open>
  Lines 289-295 of \<^verbatim>\<open>analyze_repository_comprehensive\<close>: the two analyses, made only
  when there is an analyzer and it is enabled.
\<close>

definition ai_analyses ::
  "analyzer option \<Rightarrow> string list \<Rightarrow> string list \<Rightarrow> string \<Rightarrow> qualitative \<times> qualitative" where
  "ai_analyses ai_analyzer commit_messages file_structure readme_content =
     (let unavailable =
            \<lparr>score = 0.5,
             analysis = PStr (''IA n'' @ [CHR 0xE3] @ ''o dispon'' @ [CHR 0xED] @ ''vel''),
             recommendations = []\<rparr>
      in (case ai_analyzer of
            None \<Rightarrow> (unavailable, unavailable)
          | Some a \<Rightarrow>
              if enabled a then
                (analyze_commit_quality a commit_messages,
                 analyze_project_structure a file_structure readme_content)
              else (unavailable, unavailable)))"

text \<open>
  Lines 289-327 of \<^verbatim>\<open>analyze_repository_comprehensive\<close>: the two analyses and the composite
  score. The arguments are what lines 261-287 have computed: the name and creation date of
  the repository, the results of the four metric functions, the commit messages and the
  README text.
\<close>

definition analyze_repository_comprehensive ::
  "string \<Rightarrow> int \<Rightarrow> velocity_metrics \<Rightarrow> collaboration_metrics \<Rightarrow> structure_metrics
   \<Rightarrow> engagement_metrics \<Rightarrow> string list \<Rightarrow> string \<Rightarrow> analyzer option \<Rightarrow> py_error + assessment" where
  "analyze_repository_comprehensive name created velocity collaboration struct engagement
     commit_messages readme_content ai_analyzer =
     (let (ai_commit, ai_structure) =
            ai_analyses ai_analyzer commit_messages (sm_file_structure struct) readme_content
      in raise_bind (dict_get AGILE_METRICS_WEIGHTS ''development_velocity'') (\<lambda>w_velocity.
         raise_bind (dict_get AGILE_METRICS_WEIGHTS ''collaboration_index'') (\<lambda>w_collaboration.
         raise_bind (dict_get AGILE_METRICS_WEIGHTS ''code_quality'') (\<lambda>w_quality.
         raise_bind (dict_get AGILE_METRICS_WEIGHTS ''documentation_maturity'') (\<lambda>w_documentation.
         raise_bind (dict_get AGILE_METRICS_WEIGHTS ''project_structure'') (\<lambda>w_structure.
         raise_bind (dict_get AGILE_METRICS_WEIGHTS ''community_engagement'') (\<lambda>w_engagement.
           let score_sum =
                 vm_score velocity * w_velocity
                 + cm_score collaboration * w_collaboration
                 + score ai_commit * w_quality
                 + score ai_structure * w_documentation
                 + sm_score struct * w_structure
                 + em_score engagement * w_engagement;
               level =
                 (if score_sum \<ge> 0.8 then ''Excelente''
                  else if score_sum \<ge> 0.6 then ''Maduro''
                  else if score_sum \<ge> 0.4 then ''Em Desenvolvimento''
                  else ''Iniciante'')
           in Inr \<lparr>repo_name = name,
                   created_at = created,
                   final_score = py_round score_sum 3,
                   maturity_level = level,
                   velocity_metrics = velocity,
                   collaboration_metrics = collaboration,
                   structure_metrics = struct,
                   engagement_metrics = engagement,
                   ai_commit_analysis = ai_commit,
                   ai_structure_analysis = ai_structure\<rparr>)))))))"


section \<open>aval-usuario.py: the detailed analyses\<close>

text \<open>
  Lines 112-116 (and 170-174, 228-232): the lines of the answer that hold a keyword, each
  after \<^verbatim>\<open>line.strip('- ').strip()\<close>.
\<close>

definition detailed_recommendations :: "string \<Rightarrow> string list" where
  "detailed_recommendations result =
     map (\<lambda>line. strip (strip_chars (\<lambda>c. c = CHR ''-'' \<or> c = CHR '' '') line))
       (filter has_keyword (split_lines result))"

text \<open>
  Lines 118-126 (and 176-184, 234-242): the result of an analysis whose answer \<open>result\<close> is
  not empty; \<open>canned\<close> is the fixed list used when no line holds a keyword.
\<close>

definition detailed_result :: "string \<Rightarrow> string list \<Rightarrow> qualitative" where
  "detailed_result result canned =
     (let recs = detailed_recommendations result
      in \<lparr>score = extract_score result,
          analysis = PStr result,
          recommendations = (if recs \<noteq> [] then take 3 recs else canned)\<rparr>)"

definition analysis_failed :: qualitative where
  "analysis_failed =
     \<lparr>score = 0.5,
      analysis = PStr (''Falha na an'' @ [CHR 0xE1] @ ''lise de IA''),
      recommendations = []\<rparr>"

text \<open>Lines 70-128: \<^verbatim>\<open>analyze_commits_detailed\<close>.\<close>

definition analyze_commits_detailed :: "analyzer \<Rightarrow> commit list \<Rightarrow> qualitative" where
  "analyze_commits_detailed self commits_data =
     (if commits_data = [] then
        \<lparr>score = 0.5, analysis = PStr ''Nenhum commit encontrado'', recommendations = []\<rparr>
      else
        let messages = filter (\<lambda>m. m \<noteq> []) (map c_message commits_data) in
        if \<not> enabled self \<or> messages = [] then
          \<lparr>score = 0.5,
           analysis =
             PFmt (''An'' @ [CHR 0xE1] @ ''lise b'' @ [CHR 0xE1]
                   @ ''sica: {len(messages)} commits encontrados'')
               [PInt (int (length messages))],
           recommendations = [''Configure OpenAI para an'' @ [CHR 0xE1] @ ''lise detalhada'']\<rparr>
        else
          let messages_text = join [CHR 0x0A] (map (\<lambda>msg. ''- '' @ msg) (take 10 messages));
              prompt_messages =
                [(''system'',
                  ''Voc'' @ [CHR 0xEA] @ '' '' @ [CHR 0xE9] @ '' um especialista em pr'' @ [CHR 0xE1]
                  @ ''ticas '' @ [CHR 0xE1]
                  @ ''geis e qualidade de commits. Analise as mensagens de commit e forne''
                  @ [CHR 0xE7] @ ''a: 1) Uma pontua'' @ [CHR 0xE7, CHR 0xE3] @ ''o de 0.0 a 1.0 2) An''
                  @ [CHR 0xE1] @ ''lise detalhada dos pontos fortes e fracos 3) 3 recomenda''
                  @ [CHR 0xE7, CHR 0xF5] @ ''es espec'' @ [CHR 0xED] @ ''ficas para melhoria''),
                 (''user'', ''Analise estas mensagens de commit:'' @ [CHR 0x0A] @ messages_text)]
          in (case call_openai self prompt_messages 300 of
                None \<Rightarrow> analysis_failed
              | Some result \<Rightarrow>
                  if result = [] then analysis_failed
                  else detailed_result result
                         [''Melhore a clareza das mensagens de commit'',
                          ''Use formato convencional (feat:, fix:, docs:)'',
                          ''Descreva o '' @ [CHR 0x27] @ ''porqu'' @ [CHR 0xEA, CHR 0x27] @ '' al''
                          @ [CHR 0xE9] @ ''m do '' @ [CHR 0x27] @ ''o qu'' @ [CHR 0xEA, CHR 0x27]]))"

text \<open>Lines 130-186: \<^verbatim>\<open>analyze_issues_detailed\<close>.\<close>

definition analyze_issues_detailed :: "analyzer \<Rightarrow> issue list \<Rightarrow> qualitative" where
  "analyze_issues_detailed self issues_data =
     (if issues_data = [] then
        \<lparr>score = 0.5, analysis = PStr ''Nenhuma issue encontrada'', recommendations = []\<rparr>
      else if \<not> enabled self then
        \<lparr>score = 0.5,
         analysis =
           PFmt (''An'' @ [CHR 0xE1] @ ''lise b'' @ [CHR 0xE1]
                 @ ''sica: {len(issues_data)} issues encontradas'')
             [PInt (int (length issues_data))],
         recommendations = [''Configure OpenAI para an'' @ [CHR 0xE1] @ ''lise detalhada'']\<rparr>
      else
        let issues_text =
              join ([CHR 0x0A] @ ''---'' @ [CHR 0x0A])
                (map (\<lambda>issue. ''T'' @ [CHR 0xED] @ ''tulo: '' @ i_title issue @ [CHR 0x0A]
                                @ ''Descri'' @ [CHR 0xE7, CHR 0xE3] @ ''o: '' @ take 500 (i_body issue)
                                @ ''...'')
                   (take 5 issues_data));
            prompt_messages =
              [(''system'',
                ''Voc'' @ [CHR 0xEA] @ '' '' @ [CHR 0xE9] @ '' um especialista em hist'' @ [CHR 0xF3]
                @ ''rias de usu'' @ [CHR 0xE1] @ ''rio '' @ [CHR 0xE1]
                @ ''geis. Analise as issues e forne'' @ [CHR 0xE7] @ ''a: 1) Pontua''
                @ [CHR 0xE7, CHR 0xE3] @ ''o de 0.0 a 1.0 2) An'' @ [CHR 0xE1]
                @ ''lise da qualidade das hist'' @ [CHR 0xF3] @ ''rias 3) Recomenda''
                @ [CHR 0xE7, CHR 0xF5] @ ''es espec'' @ [CHR 0xED] @ ''ficas''),
               (''user'',
                ''Analise estas issues/hist'' @ [CHR 0xF3] @ ''rias:'' @ [CHR 0x0A] @ issues_text)]
        in (case call_openai self prompt_messages 300 of
              None \<Rightarrow> analysis_failed
            | Some result \<Rightarrow>
                if result = [] then analysis_failed
                else detailed_result result
                       [''Adicione crit'' @ [CHR 0xE9] @ ''rios de aceita'' @ [CHR 0xE7, CHR 0xE3]
                        @ ''o claros'',
                        ''Use formato '' @ [CHR 0x27] @ ''Como... Eu quero... Para que...''
                        @ [CHR 0x27],
                        ''Inclua mais detalhes t'' @ [CHR 0xE9] @ ''cnicos'']))"

text \<open>Lines 188-244: \<^verbatim>\<open>analyze_reviews_detailed\<close>.\<close>

definition analyze_reviews_detailed :: "analyzer \<Rightarrow> review list \<Rightarrow> qualitative" where
  "analyze_reviews_detailed self reviews_data =
     (if reviews_data = [] then
        \<lparr>score = 0.5,
         analysis = PStr (''Nenhuma revis'' @ [CHR 0xE3] @ ''o encontrada''),
         recommendations = []\<rparr>
      else if \<not> enabled self then
        \<lparr>score = 0.5,
         analysis =
           PFmt (''An'' @ [CHR 0xE1] @ ''lise b'' @ [CHR 0xE1]
                 @ ''sica: {len(reviews_data)} revis'' @ [CHR 0xF5] @ ''es encontradas'')
             [PInt (int (length reviews_data))],
         recommendations = [''Configure OpenAI para an'' @ [CHR 0xE1] @ ''lise detalhada'']\<rparr>
      else
        let reviews_text =
              join [CHR 0x0A]
                (map (\<lambda>review. ''- '' @ take 200 (r_body review) @ ''...'')
                   (filter (\<lambda>review. r_body review \<noteq> []) (take 8 reviews_data)));
            prompt_messages =
              [(''system'',
                ''Voc'' @ [CHR 0xEA] @ '' '' @ [CHR 0xE9] @ '' um especialista em revis''
                @ [CHR 0xE3] @ ''o de c'' @ [CHR 0xF3] @ ''digo. Analise os coment'' @ [CHR 0xE1]
                @ ''rios de revis'' @ [CHR 0xE3] @ ''o e forne'' @ [CHR 0xE7] @ ''a: 1) Pontua''
                @ [CHR 0xE7, CHR 0xE3] @ ''o de 0.0 a 1.0 2) An'' @ [CHR 0xE1]
                @ ''lise da qualidade das revis'' @ [CHR 0xF5] @ ''es 3) Recomenda''
                @ [CHR 0xE7, CHR 0xF5] @ ''es para melhorar''),
               (''user'',
                ''Analise estes coment'' @ [CHR 0xE1] @ ''rios de revis'' @ [CHR 0xE3] @ ''o:''
                @ [CHR 0x0A] @ reviews_text)]
        in (case call_openai self prompt_messages 300 of
              None \<Rightarrow> analysis_failed
            | Some result \<Rightarrow>
                if result = [] then analysis_failed
                else detailed_result result
                       [''Forne'' @ [CHR 0xE7] @ ''a feedback mais espec'' @ [CHR 0xED] @ ''fico'',
                        ''Sugira melhorias construtivas'',
                        ''Foque em qualidade, seguran'' @ [CHR 0xE7] @ ''a e performance'']))"

text \<open>
  Lines 723-727 of \<^verbatim>\<open>main\<close>: the three analyses of a user, each replaced by a fixed result
  when there is no analyzer (\<^verbatim>\<open>--disable-ai\<close>).
\<close>

definition main_ai_analysis :: "analyzer option \<Rightarrow> user_data \<Rightarrow> ai_analysis" where
  "main_ai_analysis ai_analyzer data =
     (let disabled = \<lparr>score = 0.5, analysis = PStr ''IA desabilitada'', recommendations = []\<rparr>
      in \<lparr>ai_commits =
            (case ai_analyzer of Some a \<Rightarrow> analyze_commits_detailed a (commits data)
             | None \<Rightarrow> disabled),
          ai_issues =
            (case ai_analyzer of Some a \<Rightarrow> analyze_issues_detailed a (issues data)
             | None \<Rightarrow> disabled),
          ai_reviews =
            (case ai_analyzer of Some a \<Rightarrow> analyze_reviews_detailed a (reviews data)
             | None \<Rightarrow> disabled)\<rparr>)"


section \<open>The composite score as the specification words it\<close>

text \<open>
  Section 4.5 of the specification: the tier of a score, the thresholds read top-down.
  Section 4.1: the normalizer \<^verbatim>\<open>min(1.0, raw / ceiling)\<close>.
\<close>

definition spec_maturity_tier :: "real \<Rightarrow> string" where
  "spec_maturity_tier s =
     (if s \<ge> 0.8 then ''Excelente''
      else if s \<ge> 0.6 then ''Maduro''
      else if s \<ge> 0.4 then ''Em Desenvolvimento''
      else ''Iniciante'')"

definition spec_normalize :: "real \<Rightarrow> real \<Rightarrow> real" where
  "spec_normalize raw cap = min 1.0 (raw / cap)"


section \<open>Properties of the commit-frequency heuristic\<close>

lemma raise_bind_Inl: "raise_bind (Inl e) f = Inl e"
  by (simp add: raise_bind_def)

lemma raise_bind_Inr: "raise_bind (Inr v) f = f v"
  by (simp add: raise_bind_def)

lemma raise_seq_Cons_Inr:
  "raise_seq (Inr v # ms) = raise_bind (raise_seq ms) (\<lambda>vs. Inr (v # vs))"
  by (simp add: raise_bind_def)

lemma raise_seq_Cons_Inl: "raise_seq (Inl e # ms) = Inl e"
  by (simp add: raise_bind_def)

lemma weeks_in_period_pos: "1 \<le> weeks_in_period since_date now_dt"
  by (simp add: weeks_in_period_def)


lemma analyze_commit_frequency_empty:
  "analyze_commit_frequency [] since_date now_dt =
     Inr [(''commits_per_week'', PFloat 0),
          (''weeks_inactive'', PInt 0),
          (''frequency_alert'', PStr (''Nenhum commit encontrado no per'' @ [CHR 0xED] @ ''odo'')),
          (''alert_level'', PStr ''critical'')]"
  by (simp add: analyze_commit_frequency_def)

text \<open>
  The result for a commit list that is not empty: the five keys, with the level and the
  number of inactive weeks as the specification words them.
\<close>

lemma analyze_commit_frequency_nonempty:
  assumes "commits_data \<noteq> []"
  shows "\<exists>msg. analyze_commit_frequency commits_data since_date now_dt =
     Inr [(''commits_per_week'',
           PFloat (py_round (of_int (int (length commits_data))
                             / of_int (weeks_in_period since_date now_dt)) 2)),
          (''weeks_inactive'',
           PInt (spec_weeks_inactive (int (length commits_data)) (weeks_in_period since_date now_dt))),
          (''weeks_total'', PInt (weeks_in_period since_date now_dt)),
          (''frequency_alert'', msg),
          (''alert_level'',
           PStr (spec_alert_level (int (length commits_data)) (weeks_in_period since_date now_dt)))]"
proof -
  have w: "(of_int (weeks_in_period since_date now_dt) :: real) \<noteq> 0"
    using weeks_in_period_pos [of since_date now_dt] by simp
  have n: "length commits_data \<noteq> 0"
    using assms by simp
  show ?thesis
    using assms w n
    by (simp add: analyze_commit_frequency_def raise_bind_def py_truediv_def Let_def
        spec_alert_level_def spec_weeks_inactive_def mult.commute not_less)
qed

lemma raise_seq_Nil: "raise_seq [] = Inr []"
  by simp

lemma raise_seq_map_Inr: "raise_seq (map Inr xs) = Inr xs"
  by (induction xs) (simp_all add: raise_bind_def)

lemma raise_seq_append:
  "raise_seq (xs @ ys) =
     raise_bind (raise_seq xs) (\<lambda>a. raise_bind (raise_seq ys) (\<lambda>b. Inr (a @ b)))"
  by (induction xs) (auto simp add: raise_bind_def split: sum.splits)

lemma div_expr_Inr:
  assumes "y \<noteq> 0"
  shows "div_expr (Inr x) (Inr y) = Inr (x / y)"
  using assms by (simp add: div_expr_def raise_bind_def py_truediv_def)

lemma fmt_expr_Inr: "fmt_expr spec (Inr x) = Inr (PFmt spec [PFloat x])"
  by (simp add: fmt_expr_def raise_bind_def)

lemma max_one_int: "max 1 (n :: int) \<noteq> 0"
  by (simp add: max_def)

text \<open>
  With at least one commit the report is produced: every key that it reads is in the
  frequency result, and every division is by a number that is at least 1.
\<close>

lemma report_of_commits:
  assumes "commits data \<noteq> []"
  shows "\<exists>report. generate_detailed_report username repo data ai since_date now_dt report_now
           = Inr report"
proof -
  from analyze_commit_frequency_nonempty [OF assms, of since_date now_dt]
  obtain msg where d: "analyze_commit_frequency (commits data) since_date now_dt =
     Inr [(''commits_per_week'',
           PFloat (py_round (of_int (int (length (commits data)))
                             / of_int (weeks_in_period since_date now_dt)) 2)),
          (''weeks_inactive'',
           PInt (spec_weeks_inactive (int (length (commits data))) (weeks_in_period since_date now_dt))),
          (''weeks_total'', PInt (weeks_in_period since_date now_dt)),
          (''frequency_alert'', msg),
          (''alert_level'',
           PStr (spec_alert_level (int (length (commits data))) (weeks_in_period since_date now_dt)))]"
    by blast
  have w: "(of_int (weeks_in_period since_date now_dt) :: real) \<noteq> 0"
    using weeks_in_period_pos [of since_date now_dt] by simp
  have m: "max 1 (of_int (weeks_in_period since_date now_dt) / 4 :: real) \<noteq> 0"
    by (simp add: max_def)
  show ?thesis
    unfolding generate_detailed_report_def d raise_bind_Inr
    using w m
    by (simp add: Let_def dict_get_def raise_bind_Inr raise_seq_append raise_seq_map_Inr
        raise_seq_Cons_Inr raise_seq_Nil div_expr_Inr fmt_expr_Inr max_one_int py_truediv_def
        div_expr_def
        del: raise_seq.simps(2))
qed

text \<open>
  C2 (the code at the failing input). With no commit and a window of ten weeks the result
  has no key \<^verbatim>\<open>weeks_total\<close> and its \<^verbatim>\<open>weeks_inactive\<close> is 0, not 10; the level is
  \<^verbatim>\<open>critical\<close>.
\<close>

theorem zero_commits_early_return:
  "analyze_commit_frequency [] 0 (70 * us_per_day) =
     Inr [(''commits_per_week'', PFloat 0),
          (''weeks_inactive'', PInt 0),
          (''frequency_alert'', PStr (''Nenhum commit encontrado no per'' @ [CHR 0xED] @ ''odo'')),
          (''alert_level'', PStr ''critical'')]
   \<and> weeks_in_period 0 (70 * us_per_day) = 10
   \<and> raise_bind (analyze_commit_frequency [] 0 (70 * us_per_day)) (\<lambda>d. dict_get d ''weeks_total'')
       = Inl (KeyError ''weeks_total'')
   \<and> raise_bind (analyze_commit_frequency [] 0 (70 * us_per_day)) (\<lambda>d. dict_get d ''weeks_inactive'')
       = Inr (PInt 0)"
  by (simp add: analyze_commit_frequency_empty raise_bind_Inr dict_get_def
      weeks_in_period_def timedelta_days_def since_dt_def us_per_day_def)

text \<open>
  C3. When the collected commit list is empty, the frequency result has no key
  \<^verbatim>\<open>weeks_total\<close>, and \<^verbatim>\<open>generate_detailed_report\<close> raises \<^verbatim>\<open>KeyError('weeks_total')\<close> at the
  first place that reads it (line 489): no report is produced.
\<close>

theorem report_of_zero_commits_raises_KeyError:
  assumes "commits data = []"
  shows "(\<exists>d. analyze_commit_frequency (commits data) since_date now_dt = Inr d
             \<and> map_of d ''weeks_total'' = None)
       \<and> generate_detailed_report username repo data ai since_date now_dt report_now
           = Inl (KeyError ''weeks_total'')"
proof
  show "\<exists>d. analyze_commit_frequency (commits data) since_date now_dt = Inr d
            \<and> map_of d ''weeks_total'' = None"
    using assms by (simp add: analyze_commit_frequency_empty)
  show "generate_detailed_report username repo data ai since_date now_dt report_now
          = Inl (KeyError ''weeks_total'')"
    unfolding generate_detailed_report_def
    using assms
    by (simp add: analyze_commit_frequency_empty raise_bind_Inl raise_bind_Inr dict_get_def Let_def
        raise_seq_Cons_Inr raise_seq_Cons_Inl del: raise_seq.simps)
qed

text \<open>
  The witness: a user with no commit, issue, pull request or review, analysed without an
  analyzer, seventy days after the start date.
\<close>

theorem report_of_zero_commits_raises_KeyError_witness:
  "generate_detailed_report ''user'' ''owner/repo''
     \<lparr>commits = [], issues = [], prs = [], reviews = [],
      stats = \<lparr>commits_count = 0, issues_count = 0, prs_count = 0, reviews_count = 0,
               lines_added = 0, lines_removed = 0, files_changed = 0\<rparr>\<rparr>
     \<lparr>ai_commits = \<lparr>score = 0.5, analysis = PStr ''IA desabilitada'', recommendations = []\<rparr>,
      ai_issues = \<lparr>score = 0.5, analysis = PStr ''IA desabilitada'', recommendations = []\<rparr>,
      ai_reviews = \<lparr>score = 0.5, analysis = PStr ''IA desabilitada'', recommendations = []\<rparr>\<rparr>
     0 (70 * us_per_day) (70 * us_per_day)
   = Inl (KeyError ''weeks_total'')"
  using report_of_zero_commits_raises_KeyError
    [of "\<lparr>commits = [], issues = [], prs = [], reviews = [],
          stats = \<lparr>commits_count = 0, issues_count = 0, prs_count = 0, reviews_count = 0,
                   lines_added = 0, lines_removed = 0, files_changed = 0\<rparr>\<rparr>"
        0 "70 * us_per_day" "''user''" "''owner/repo''"]
  by simp




text \<open>
  C6. For a commit list that is not empty, \<^verbatim>\<open>weeks_inactive\<close> is
  \<open>max 0 (weeks_total - commit_count)\<close> and the alert level is the one the specification
  assigns top-down: good if \<open>commits_per_week \<ge> 1.0\<close>, else high if
  \<open>weeks_inactive \<ge> 0.7 * weeks_total\<close>, else medium if \<open>weeks_inactive \<ge> 0.4 * weeks_total\<close>,
  else low if \<open>commits_per_week < 0.5\<close>, else normal. Twelve commits over ten weeks give
  good with no inactive week; two commits over ten weeks give high.
\<close>

theorem frequency_levels_top_down:
  assumes "commits_data \<noteq> []"
  shows "raise_bind (analyze_commit_frequency commits_data since_date now_dt)
           (\<lambda>d. dict_get d ''weeks_inactive'')
         = Inr (PInt (max 0 (weeks_in_period since_date now_dt - int (length commits_data))))
       \<and> raise_bind (analyze_commit_frequency commits_data since_date now_dt)
           (\<lambda>d. dict_get d ''alert_level'')
         = Inr (PStr (spec_alert_level (int (length commits_data))
                        (weeks_in_period since_date now_dt)))
       \<and> (length commits_data = 12 \<and> weeks_in_period since_date now_dt = 10 \<longrightarrow>
            raise_bind (analyze_commit_frequency commits_data since_date now_dt)
              (\<lambda>d. dict_get d ''alert_level'') = Inr (PStr ''good'')
            \<and> raise_bind (analyze_commit_frequency commits_data since_date now_dt)
              (\<lambda>d. dict_get d ''weeks_inactive'') = Inr (PInt 0))
       \<and> (length commits_data = 2 \<and> weeks_in_period since_date now_dt = 10 \<longrightarrow>
            raise_bind (analyze_commit_frequency commits_data since_date now_dt)
              (\<lambda>d. dict_get d ''alert_level'') = Inr (PStr ''high''))"
proof -
  from analyze_commit_frequency_nonempty [OF assms, of since_date now_dt]
  obtain msg where "analyze_commit_frequency commits_data since_date now_dt =
     Inr [(''commits_per_week'',
           PFloat (py_round (of_int (int (length commits_data))
                             / of_int (weeks_in_period since_date now_dt)) 2)),
          (''weeks_inactive'',
           PInt (spec_weeks_inactive (int (length commits_data)) (weeks_in_period since_date now_dt))),
          (''weeks_total'', PInt (weeks_in_period since_date now_dt)),
          (''frequency_alert'', msg),
          (''alert_level'',
           PStr (spec_alert_level (int (length commits_data)) (weeks_in_period since_date now_dt)))]"
    by blast
  then have "raise_bind (analyze_commit_frequency commits_data since_date now_dt)
           (\<lambda>d. dict_get d ''weeks_inactive'')
         = Inr (PInt (max 0 (weeks_in_period since_date now_dt - int (length commits_data))))"
    and "raise_bind (analyze_commit_frequency commits_data since_date now_dt)
           (\<lambda>d. dict_get d ''alert_level'')
         = Inr (PStr (spec_alert_level (int (length commits_data))
                        (weeks_in_period since_date now_dt)))"
    by (simp_all add: raise_bind_Inr dict_get_def spec_weeks_inactive_def)
  moreover have "spec_alert_level 12 10 = ''good''"
    by (simp add: spec_alert_level_def spec_weeks_inactive_def)
  moreover have "spec_alert_level 2 10 = ''high''"
    by (simp add: spec_alert_level_def spec_weeks_inactive_def)
  ultimately show ?thesis
    by simp
qed

text \<open>
  The witness runs the heuristic on twelve commits and on two commits, the clock seventy
  days after the start date.
\<close>

theorem frequency_levels_top_down_witness:
  "weeks_in_period 0 (70 * us_per_day) = 10
   \<and> raise_bind
        (analyze_commit_frequency
           (replicate 12 \<lparr>c_sha = ''abc'', c_message = ''fix'', c_date = 0, c_files_count = 1,
                          c_additions = 1, c_deletions = 0\<rparr>) 0 (70 * us_per_day))
        (\<lambda>d. dict_get d ''alert_level'') = Inr (PStr ''good'')
   \<and> raise_bind
        (analyze_commit_frequency
           (replicate 12 \<lparr>c_sha = ''abc'', c_message = ''fix'', c_date = 0, c_files_count = 1,
                          c_additions = 1, c_deletions = 0\<rparr>) 0 (70 * us_per_day))
        (\<lambda>d. dict_get d ''weeks_inactive'') = Inr (PInt 0)
   \<and> raise_bind
        (analyze_commit_frequency
           (replicate 2 \<lparr>c_sha = ''abc'', c_message = ''fix'', c_date = 0, c_files_count = 1,
                         c_additions = 1, c_deletions = 0\<rparr>) 0 (70 * us_per_day))
        (\<lambda>d. dict_get d ''alert_level'') = Inr (PStr ''high'')
   \<and> raise_bind
        (analyze_commit_frequency
           (replicate 2 \<lparr>c_sha = ''abc'', c_message = ''fix'', c_date = 0, c_files_count = 1,
                         c_additions = 1, c_deletions = 0\<rparr>) 0 (70 * us_per_day))
        (\<lambda>d. dict_get d ''weeks_inactive'') = Inr (PInt 8)"
proof -
  have w: "weeks_in_period 0 (70 * us_per_day) = 10"
    by (simp add: weeks_in_period_def timedelta_days_def since_dt_def us_per_day_def)
  have a: "replicate 12 \<lparr>c_sha = ''abc'', c_message = ''fix'', c_date = 0, c_files_count = 1,
                          c_additions = 1, c_deletions = 0\<rparr> \<noteq> []"
    and b: "replicate 2 \<lparr>c_sha = ''abc'', c_message = ''fix'', c_date = 0, c_files_count = 1,
                          c_additions = 1, c_deletions = 0\<rparr> \<noteq> []"
    by simp_all
  show ?thesis
    using frequency_levels_top_down [OF a, of 0 "70 * us_per_day"]
      frequency_levels_top_down [OF b, of 0 "70 * us_per_day"] w
    by (simp add: spec_alert_level_def spec_weeks_inactive_def)
qed

text \<open>
  C4, as the code has it. The heuristic reads the clock, which is not among its arguments:
  with one commit since day 0, a call seven days after the start and a call seventy days
  after it return different results.
\<close>

theorem frequency_depends_on_clock_counterexample:
  "analyze_commit_frequency
     [\<lparr>c_sha = ''abc'', c_message = ''fix'', c_date = 0, c_files_count = 1,
       c_additions = 1, c_deletions = 0\<rparr>] 0 (7 * us_per_day)
   \<noteq> analyze_commit_frequency
     [\<lparr>c_sha = ''abc'', c_message = ''fix'', c_date = 0, c_files_count = 1,
       c_additions = 1, c_deletions = 0\<rparr>] 0 (70 * us_per_day)"
  by (simp add: analyze_commit_frequency_def weeks_in_period_def timedelta_days_def since_dt_def
      us_per_day_def raise_bind_def py_truediv_def Let_def)

text \<open>
  C4, amended. The result is a function of the commit list, the start date and the clock
  reading, and it depends on the clock reading only through the number of whole weeks
  since the start date: two calls with the same commit list and start date return the same
  result when their clock readings give the same number of weeks, and for an empty commit
  list whatever the clock readings.
\<close>

theorem frequency_reproducible_within_week:
  "analyze_commit_frequency [] since_date now1 = analyze_commit_frequency [] since_date now2
   \<and> (weeks_in_period since_date now1 = weeks_in_period since_date now2 \<longrightarrow>
        analyze_commit_frequency commits_data since_date now1
        = analyze_commit_frequency commits_data since_date now2)"
  by (simp add: analyze_commit_frequency_def)

text \<open>
  The witness: one commit since day 0, a call seventy days after the start and a call three
  days later, both in the tenth week.
\<close>

theorem frequency_reproducible_within_week_witness:
  "weeks_in_period 0 (70 * us_per_day) = weeks_in_period 0 (73 * us_per_day)
   \<and> analyze_commit_frequency
       [\<lparr>c_sha = ''abc'', c_message = ''fix'', c_date = 0, c_files_count = 1,
         c_additions = 1, c_deletions = 0\<rparr>] 0 (70 * us_per_day)
     = analyze_commit_frequency
       [\<lparr>c_sha = ''abc'', c_message = ''fix'', c_date = 0, c_files_count = 1,
         c_additions = 1, c_deletions = 0\<rparr>] 0 (73 * us_per_day)"
proof -
  have w: "weeks_in_period 0 (70 * us_per_day) = weeks_in_period 0 (73 * us_per_day)"
    by (simp add: weeks_in_period_def timedelta_days_def since_dt_def us_per_day_def)
  show ?thesis
    using frequency_reproducible_within_week
      [of 0 "70 * us_per_day" "73 * us_per_day"
          "[\<lparr>c_sha = ''abc'', c_message = ''fix'', c_date = 0, c_files_count = 1,
             c_additions = 1, c_deletions = 0\<rparr>]"] w
    by blast
qed


section \<open>Properties of the composite score and of the normalizers\<close>

lemma round_half_even_bounds: "\<lfloor>x\<rfloor> \<le> round_half_even x \<and> round_half_even x \<le> \<lceil>x\<rceil>"
proof (cases "x = of_int \<lfloor>x\<rfloor>")
  case True
  then have "x - of_int \<lfloor>x\<rfloor> = 0"
    by simp
  then have "round_half_even x = \<lfloor>x\<rfloor>"
    by (simp add: round_half_even_def Let_def)
  moreover have "\<lfloor>x\<rfloor> \<le> \<lceil>x\<rceil>"
    by (rule floor_le_ceiling)
  ultimately show ?thesis
    by simp
next
  case False
  then have "\<lceil>x\<rceil> = \<lfloor>x\<rfloor> + 1"
    by (simp add: ceiling_altdef)
  then show ?thesis
    by (simp add: round_half_even_def Let_def)
qed

lemma py_round_unit_interval:
  assumes "0 \<le> x" and "x \<le> 1"
  shows "0 \<le> py_round x 3 \<and> py_round x 3 \<le> 1"
proof -
  have lo: "0 \<le> x * 1000" and hi: "x * 1000 \<le> 1000"
    using assms by simp_all
  have "0 \<le> \<lfloor>x * 1000\<rfloor>"
    using lo by simp
  then have a: "0 \<le> round_half_even (x * 1000)"
    using round_half_even_bounds [of "x * 1000"] by linarith
  have "\<lceil>x * 1000\<rceil> \<le> 1000"
    using hi by (simp add: ceiling_le_iff)
  then have b: "round_half_even (x * 1000) \<le> 1000"
    using round_half_even_bounds [of "x * 1000"] by linarith
  have "(0 :: real) \<le> of_int (round_half_even (x * 1000))"
    using a by simp
  moreover have "(of_int (round_half_even (x * 1000)) :: real) \<le> 1000"
    using b by (metis of_int_le_iff of_int_numeral)
  ultimately show ?thesis
    by (simp add: py_round_def)
qed

lemma extract_score_unit_interval: "0 \<le> extract_score result \<and> extract_score result \<le> 1"
  by (simp add: extract_score_def Let_def)

lemma not_available_score: "score not_available = 1 / 2"
  by (simp add: not_available_def)

lemma analyze_commit_quality_score:
  "0 \<le> score (analyze_commit_quality self commit_messages)
   \<and> score (analyze_commit_quality self commit_messages) \<le> 1"
  using extract_score_unit_interval
  by (simp add: analyze_commit_quality_def not_available_score Let_def split: option.splits)

lemma analyze_project_structure_score:
  "0 \<le> score (analyze_project_structure self file_structure readme_content)
   \<and> score (analyze_project_structure self file_structure readme_content) \<le> 1"
  using extract_score_unit_interval
  by (simp add: analyze_project_structure_def not_available_score Let_def split: option.splits)

lemma ai_analyses_scores:
  assumes "ai_analyses ai_analyzer commit_messages file_structure readme_content = (a, b)"
  shows "0 \<le> score a \<and> score a \<le> 1 \<and> 0 \<le> score b \<and> score b \<le> 1"
proof (cases ai_analyzer)
  case None
  with assms show ?thesis
    by (auto simp add: ai_analyses_def Let_def)
next
  case (Some an)
  show ?thesis
  proof (cases "enabled an")
    case True
    with Some assms have "a = analyze_commit_quality an commit_messages"
      and "b = analyze_project_structure an file_structure readme_content"
      by (simp_all add: ai_analyses_def Let_def)
    then show ?thesis
      using analyze_commit_quality_score [of an commit_messages]
        analyze_project_structure_score [of an file_structure readme_content]
      by simp
  next
    case False
    with Some assms show ?thesis
      by (auto simp add: ai_analyses_def Let_def)
  qed
qed

lemma weights_lookup:
  "dict_get AGILE_METRICS_WEIGHTS ''development_velocity'' = Inr 0.25"
  "dict_get AGILE_METRICS_WEIGHTS ''collaboration_index'' = Inr 0.20"
  "dict_get AGILE_METRICS_WEIGHTS ''code_quality'' = Inr 0.20"
  "dict_get AGILE_METRICS_WEIGHTS ''documentation_maturity'' = Inr 0.15"
  "dict_get AGILE_METRICS_WEIGHTS ''project_structure'' = Inr 0.10"
  "dict_get AGILE_METRICS_WEIGHTS ''community_engagement'' = Inr 0.10"
  by (simp_all add: AGILE_METRICS_WEIGHTS_def dict_get_def)

text \<open>
  The composite never raises, and its result in terms of the six scores: the reported score
  is the weighted sum rounded to three decimals, the level is the tier of the sum itself.
\<close>

lemma analyze_repository_comprehensive_result:
  "\<exists>r. analyze_repository_comprehensive name created velocity collaboration struct engagement
          commit_messages readme_content ai_analyzer = Inr r
       \<and> 0 \<le> score (ai_commit_analysis r) \<and> score (ai_commit_analysis r) \<le> 1
       \<and> 0 \<le> score (ai_structure_analysis r) \<and> score (ai_structure_analysis r) \<le> 1
       \<and> final_score r =
           py_round (vm_score velocity * 0.25 + cm_score collaboration * 0.20
                     + score (ai_commit_analysis r) * 0.20
                     + score (ai_structure_analysis r) * 0.15
                     + sm_score struct * 0.10 + em_score engagement * 0.10) 3
       \<and> maturity_level r =
           spec_maturity_tier (vm_score velocity * 0.25 + cm_score collaboration * 0.20
                     + score (ai_commit_analysis r) * 0.20
                     + score (ai_structure_analysis r) * 0.15
                     + sm_score struct * 0.10 + em_score engagement * 0.10)"
proof -
  obtain a b where ab:
    "ai_analyses ai_analyzer commit_messages (sm_file_structure struct) readme_content = (a, b)"
    by (cases "ai_analyses ai_analyzer commit_messages (sm_file_structure struct) readme_content")
  note s = ai_analyses_scores [OF ab]
  have "analyze_repository_comprehensive name created velocity collaboration struct engagement
          commit_messages readme_content ai_analyzer =
        Inr \<lparr>repo_name = name, created_at = created,
             final_score =
               py_round (vm_score velocity * 0.25 + cm_score collaboration * 0.20
                         + score a * 0.20 + score b * 0.15
                         + sm_score struct * 0.10 + em_score engagement * 0.10) 3,
             maturity_level =
               spec_maturity_tier (vm_score velocity * 0.25 + cm_score collaboration * 0.20
                         + score a * 0.20 + score b * 0.15
                         + sm_score struct * 0.10 + em_score engagement * 0.10),
             velocity_metrics = velocity, collaboration_metrics = collaboration,
             structure_metrics = struct, engagement_metrics = engagement,
             ai_commit_analysis = a, ai_structure_analysis = b\<rparr>"
    unfolding analyze_repository_comprehensive_def ab weights_lookup raise_bind_Inr
      spec_maturity_tier_def Let_def
    by simp
  then show ?thesis
    using s by simp
qed







lemma normalizers_are_spec_normalize:
  "velocity_score velocity = Inr (spec_normalize velocity 5)"
  "activity_score total_issues total_prs = Inr (spec_normalize (of_int (total_issues + total_prs)) 20)"
  "diversity_score total_contributors = Inr (spec_normalize (of_int total_contributors) 5)"
  "star_score stars = Inr (spec_normalize (of_int stars) 10)"
  "fork_score forks = Inr (spec_normalize (of_int forks) 5)"
  "watch_score watchers = Inr (spec_normalize (of_int watchers) 10)"
  by (simp_all add: velocity_score_def activity_score_def diversity_score_def star_score_def
      fork_score_def watch_score_def py_truediv_def raise_bind_def spec_normalize_def)

lemma spec_normalize_nonneg:
  assumes "0 \<le> raw" and "0 < cap"
  shows "0 \<le> spec_normalize raw cap \<and> spec_normalize raw cap \<le> 1"
  using assms by (simp add: spec_normalize_def)

lemma spec_normalize_saturates:
  assumes "cap \<le> raw" and "0 < cap"
  shows "spec_normalize raw cap = 1"
  using assms by (simp add: spec_normalize_def)

lemma spec_normalize_negative:
  assumes "raw < 0" and "0 < cap"
  shows "spec_normalize raw cap = raw / cap \<and> spec_normalize raw cap < 0"
proof -
  have "raw / cap < 0"
    using assms by (simp add: divide_neg_pos)
  then show ?thesis
    by (simp add: spec_normalize_def)
qed

text \<open>
  C7, as the code has it. A negative count is not clamped: for \<open>-5\<close> stars the star score is
  \<open>-0.5\<close>, and the engagement score of a repository with \<open>-5\<close> stars, no fork and no watcher
  is \<open>-0.167\<close>.
\<close>

theorem normalizer_negative_raw_counterexample:
  "star_score (- 5) = Inr (- 0.5)
   \<and> em_score (calculate_community_engagement (Inr (Some (- 5))) (Inr (Some 0)) (Inr (Some 0)))
       = - 0.167"
  by (simp add: calculate_community_engagement_def star_score_def fork_score_def watch_score_def
      or_zero_def py_truediv_def raise_bind_def py_round_def round_half_even_def)

text \<open>
  C7, amended. Each of the six normalizers of the code never raises and computes
  \<open>min 1.0 (raw / ceiling)\<close>. For every raw value that is not negative and every positive
  ceiling this is in the unit interval, it is 0.0 for a raw value of 0 and exactly 1.0 from
  the ceiling on. A negative raw value is not clamped: the result is \<open>raw / ceiling\<close>, below
  zero.
\<close>

theorem normalizers_bounded_for_nonnegative_raw:
  "velocity_score velocity = Inr (spec_normalize velocity 5)
   \<and> activity_score total_issues total_prs
       = Inr (spec_normalize (of_int (total_issues + total_prs)) 20)
   \<and> diversity_score total_contributors = Inr (spec_normalize (of_int total_contributors) 5)
   \<and> star_score stars = Inr (spec_normalize (of_int stars) 10)
   \<and> fork_score forks = Inr (spec_normalize (of_int forks) 5)
   \<and> watch_score watchers = Inr (spec_normalize (of_int watchers) 10)
   \<and> (0 < cap \<longrightarrow>
        (0 \<le> raw \<longrightarrow> 0 \<le> spec_normalize raw cap \<and> spec_normalize raw cap \<le> 1)
        \<and> spec_normalize 0 cap = 0
        \<and> (cap \<le> raw \<longrightarrow> spec_normalize raw cap = 1)
        \<and> (raw < 0 \<longrightarrow> spec_normalize raw cap = raw / cap \<and> spec_normalize raw cap < 0))"
  using normalizers_are_spec_normalize
    spec_normalize_nonneg [of raw cap] spec_normalize_saturates [of cap raw]
    spec_normalize_negative [of raw cap] spec_normalize_nonneg [of 0 cap]
  by (simp add: spec_normalize_def)

text \<open>
  The witness: twelve stars against the ceiling 10 give exactly 1.0, three forks against 5
  give 0.6, no watcher gives 0.0.
\<close>

theorem normalizers_bounded_for_nonnegative_raw_witness:
  "star_score 12 = Inr 1 \<and> fork_score 3 = Inr 0.6 \<and> watch_score 0 = Inr 0
   \<and> (0 :: real) < 10 \<and> (10 :: real) \<le> 12 \<and> spec_normalize 12 10 = 1
   \<and> (0 :: real) < 5 \<and> (0 :: real) \<le> 3 \<and> 0 \<le> spec_normalize 3 5 \<and> spec_normalize 3 5 \<le> 1
   \<and> (- 5 :: real) < 0 \<and> spec_normalize (- 5) 10 < 0"
proof -
  have a: "star_score 12 = Inr (spec_normalize 12 10)"
    and b: "fork_score 3 = Inr (spec_normalize 3 5)"
    and c: "watch_score 0 = Inr (spec_normalize 0 10)"
    and d: "spec_normalize 12 10 = 1"
    using normalizers_bounded_for_nonnegative_raw [of 0 0 0 0 12 3 0 10 12]
    by simp_all
  have e: "0 \<le> spec_normalize 3 5 \<and> spec_normalize 3 5 \<le> 1"
    using normalizers_bounded_for_nonnegative_raw [of 0 0 0 0 0 0 0 5 3]
    by simp
  have f: "spec_normalize (- 5) 10 < 0"
    using normalizers_bounded_for_nonnegative_raw [of 0 0 0 0 0 0 0 10 "- 5"]
    by simp
  have g: "spec_normalize 3 5 = 0.6" "spec_normalize 0 10 = 0"
    by (simp_all add: spec_normalize_def)
  show ?thesis
    using a b c d e f g by simp
qed

lemma weights_table:
  "list_all (\<lambda>(k, w). 0 \<le> w) AGILE_METRICS_WEIGHTS
   \<and> length AGILE_METRICS_WEIGHTS = 6
   \<and> sum_list (map snd AGILE_METRICS_WEIGHTS) = 1"
  by (simp add: AGILE_METRICS_WEIGHTS_def)

lemma weighted_sum_unit_interval:
  fixes a b c d e f :: real
  assumes "0 \<le> a" "a \<le> 1" "0 \<le> b" "b \<le> 1" "0 \<le> c" "c \<le> 1"
    and "0 \<le> d" "d \<le> 1" "0 \<le> e" "e \<le> 1" "0 \<le> f" "f \<le> 1"
  shows "0 \<le> a * 0.25 + b * 0.20 + c * 0.20 + d * 0.15 + e * 0.10 + f * 0.10
       \<and> a * 0.25 + b * 0.20 + c * 0.20 + d * 0.15 + e * 0.10 + f * 0.10 \<le> 1"
  using assms by simp

text \<open>
  C8. The six weights are not negative and sum to 1.0. When the four metric scores are in
  the unit interval (the two analysis scores always are), the composite returns a result
  whose \<^verbatim>\<open>final_score\<close> is in the unit interval; so is the weighted sum before rounding.
\<close>

theorem composite_final_score_in_unit_interval:
  assumes "0 \<le> vm_score velocity" and "vm_score velocity \<le> 1"
    and "0 \<le> cm_score collaboration" and "cm_score collaboration \<le> 1"
    and "0 \<le> sm_score struct" and "sm_score struct \<le> 1"
    and "0 \<le> em_score engagement" and "em_score engagement \<le> 1"
  shows "list_all (\<lambda>(k, w). 0 \<le> w) AGILE_METRICS_WEIGHTS
       \<and> length AGILE_METRICS_WEIGHTS = 6
       \<and> sum_list (map snd AGILE_METRICS_WEIGHTS) = 1
       \<and> (\<exists>r. analyze_repository_comprehensive name created velocity collaboration struct
                 engagement commit_messages readme_content ai_analyzer = Inr r
              \<and> 0 \<le> score (ai_commit_analysis r) \<and> score (ai_commit_analysis r) \<le> 1
              \<and> 0 \<le> score (ai_structure_analysis r) \<and> score (ai_structure_analysis r) \<le> 1
              \<and> 0 \<le> final_score r \<and> final_score r \<le> 1)"
proof -
  from analyze_repository_comprehensive_result
    [of name created velocity collaboration struct engagement commit_messages
        readme_content ai_analyzer]
  obtain r where r: "analyze_repository_comprehensive name created velocity collaboration
        struct engagement commit_messages readme_content ai_analyzer = Inr r"
    and a: "0 \<le> score (ai_commit_analysis r)" "score (ai_commit_analysis r) \<le> 1"
    and b: "0 \<le> score (ai_structure_analysis r)" "score (ai_structure_analysis r) \<le> 1"
    and f: "final_score r =
           py_round (vm_score velocity * 0.25 + cm_score collaboration * 0.20
                     + score (ai_commit_analysis r) * 0.20
                     + score (ai_structure_analysis r) * 0.15
                     + sm_score struct * 0.10 + em_score engagement * 0.10) 3"
    by blast
  note s = weighted_sum_unit_interval
    [OF assms(1) assms(2) assms(3) assms(4) a(1) a(2) b(1) b(2) assms(5) assms(6) assms(7)
        assms(8)]
  have "0 \<le> final_score r \<and> final_score r \<le> 1"
    unfolding f using s by (intro py_round_unit_interval) simp_all
  with r a b weights_table show ?thesis
    by blast
qed

text \<open>
  The witness: the scores of a repository with 49 commits in 70 days, collaboration 0.325,
  three structure items of five, engagement 0.4, and no analyzer. The reported score is
  0.585.
\<close>

theorem composite_final_score_in_unit_interval_witness:
  "raise_bind
     (analyze_repository_comprehensive ''org/repo'' 0
        \<lparr>vm_total_commits = 49, vm_weeks_since_creation = 10, vm_commits_per_week = 4.9,
         vm_score = 0.98\<rparr>
        \<lparr>cm_total_issues = 4, cm_total_prs = 1, cm_unique_contributors = 2, cm_score = 0.325\<rparr>
        \<lparr>sm_total_files = 12, sm_has_readme = True, sm_has_tests = True, sm_has_ci = False,
         sm_file_structure = [], sm_score = 0.6\<rparr>
        \<lparr>em_stars = 12, em_forks = 1, em_watchers = 0, em_score = 0.4\<rparr>
        [] [] None)
     (\<lambda>r. Inr (final_score r, 0 \<le> final_score r \<and> final_score r \<le> 1))
   = Inr (0.585, True)"
proof -
  from composite_final_score_in_unit_interval
    [of "\<lparr>vm_total_commits = 49, vm_weeks_since_creation = 10, vm_commits_per_week = 4.9,
          vm_score = 0.98\<rparr>"
        "\<lparr>cm_total_issues = 4, cm_total_prs = 1, cm_unique_contributors = 2, cm_score = 0.325\<rparr>"
        "\<lparr>sm_total_files = 12, sm_has_readme = True, sm_has_tests = True, sm_has_ci = False,
          sm_file_structure = [], sm_score = 0.6\<rparr>"
        "\<lparr>em_stars = 12, em_forks = 1, em_watchers = 0, em_score = 0.4\<rparr>"
        "''org/repo''" 0 "[]" "[]" None]
  obtain r where r: "analyze_repository_comprehensive ''org/repo'' 0
        \<lparr>vm_total_commits = 49, vm_weeks_since_creation = 10, vm_commits_per_week = 4.9,
         vm_score = 0.98\<rparr>
        \<lparr>cm_total_issues = 4, cm_total_prs = 1, cm_unique_contributors = 2, cm_score = 0.325\<rparr>
        \<lparr>sm_total_files = 12, sm_has_readme = True, sm_has_tests = True, sm_has_ci = False,
         sm_file_structure = [], sm_score = 0.6\<rparr>
        \<lparr>em_stars = 12, em_forks = 1, em_watchers = 0, em_score = 0.4\<rparr>
        [] [] None = Inr r"
    and b: "0 \<le> final_score r \<and> final_score r \<le> 1"
    by auto
  have "final_score r = 0.585"
    using r
    by (auto simp add: analyze_repository_comprehensive_def ai_analyses_def weights_lookup
        raise_bind_Inr Let_def py_round_def round_half_even_def)
  with r b show ?thesis
    by (simp add: raise_bind_Inr)
qed


section \<open>Properties of the text-score extractor\<close>

lemma extract_recommendations_length: "length (extract_recommendations text) \<le> 2"
  by (simp add: extract_recommendations_def)

lemma extract_recommendations_long:
  assumes "r \<in> set (extract_recommendations text)"
  shows "10 < length r"
proof -
  from assms have "r \<in> set (map clean_line
      (filter (\<lambda>line. has_keyword line \<and> clean_line line \<noteq> [] \<and> length (clean_line line) > 10)
         (split_lines text)))"
    unfolding extract_recommendations_def by (rule in_set_takeD)
  then show ?thesis
    by auto
qed

lemma english_text_score:
  "extract_score
     ''Score: 0.75. You should improve test coverage. Also you should add documentation.''
   = 0.75"
  by (simp add: extract_score_def is_digit_def py_float_def digits_val_def)

lemma english_text_one_line:
  "split_lines
     ''Score: 0.75. You should improve test coverage. Also you should add documentation.''
   = [''Score: 0.75. You should improve test coverage. Also you should add documentation.'']"
  by (simp add: split_lines_def)

lemma english_text_no_keyword:
  "\<not> has_keyword
     ''Score: 0.75. You should improve test coverage. Also you should add documentation.''"
  by (simp add: has_keyword_def recommendation_keywords_def lower_def lower_char_def)

lemma english_text_recommendations:
  "extract_recommendations
     ''Score: 0.75. You should improve test coverage. Also you should add documentation.''
   = []"
  by (simp add: extract_recommendations_def english_text_one_line english_text_no_keyword)

lemma english_text_strip:
  "strip ''Score: 0.75. You should improve test coverage. Also you should add documentation.''
   = ''Score: 0.75. You should improve test coverage. Also you should add documentation.''"
  by (simp add: strip_def strip_chars_def is_space_def)

text \<open>
  C5, as the code has it. The text is a single line and holds none of the keywords
  \<^verbatim>\<open>recomend\<close>, \<^verbatim>\<open>sugest\<close>, \<^verbatim>\<open>melhor\<close>, \<^verbatim>\<open>deve\<close>: the extractor returns no recommendation,
  not two.
\<close>

theorem english_text_two_recommendations_counterexample:
  "extract_recommendations
     ''Score: 0.75. You should improve test coverage. Also you should add documentation.'' = []
   \<and> length (extract_recommendations
       ''Score: 0.75. You should improve test coverage. Also you should add documentation.'') \<noteq> 2"
  by (simp add: english_text_recommendations)

text \<open>
  C5, amended. For that text the extractor returns the score 0.75 and no recommendation: a
  recommendation is a line that holds one of the four keywords of the operating language,
  and the text is one line that holds none. Whatever the text, every recommendation that
  the extractor returns has more than 10 characters after the markers are stripped.
\<close>

theorem english_text_score_and_no_recommendation:
  "extract_score
     ''Score: 0.75. You should improve test coverage. Also you should add documentation.''
   = 0.75
   \<and> extract_recommendations
       ''Score: 0.75. You should improve test coverage. Also you should add documentation.''
     = []
   \<and> (\<forall>r \<in> set (extract_recommendations text). 10 < length r)
   \<and> (enabled self \<and> commit_messages \<noteq> []
        \<and> (\<forall>messages max_tokens. chat self messages max_tokens = Inr
             ''Score: 0.75. You should improve test coverage. Also you should add documentation.'')
       \<longrightarrow> analyze_commit_quality self commit_messages
           = \<lparr>score = 0.75,
              analysis = PStr
                ''Score: 0.75. You should improve test coverage. Also you should add documentation.'',
              recommendations = []\<rparr>)"
proof (intro conjI ballI impI)
  show "extract_score
     ''Score: 0.75. You should improve test coverage. Also you should add documentation.''
   = 0.75"
    by (rule english_text_score)
  show "extract_recommendations
       ''Score: 0.75. You should improve test coverage. Also you should add documentation.''
     = []"
    by (rule english_text_recommendations)
  show "10 < length r" if "r \<in> set (extract_recommendations text)" for r
    using that by (rule extract_recommendations_long)
  show "analyze_commit_quality self commit_messages
           = \<lparr>score = 0.75,
              analysis = PStr
                ''Score: 0.75. You should improve test coverage. Also you should add documentation.'',
              recommendations = []\<rparr>"
    if "enabled self \<and> commit_messages \<noteq> []
        \<and> (\<forall>messages max_tokens. chat self messages max_tokens = Inr
             ''Score: 0.75. You should improve test coverage. Also you should add documentation.'')"
    using that
    by (simp add: analyze_commit_quality_def call_openai_def english_text_strip
        english_text_score english_text_recommendations Let_def)
qed

text \<open>
  The witness: a text of three lines in Portuguese gives the score 0.75 and two
  recommendations, of 40 and 33 characters; and the English text as the answer of the
  service.
\<close>

theorem english_text_score_and_no_recommendation_witness:
  "extract_recommendations
     (''Pontuacao: 0.75'' @ [CHR 0x0A] @ ''1. Recomendo melhorar a cobertura de testes''
      @ [CHR 0x0A] @ ''- Voce deve adicionar documentacao'')
   = [''Recomendo melhorar a cobertura de testes'', ''Voce deve adicionar documentacao'']
   \<and> (10 :: nat) < length ''Recomendo melhorar a cobertura de testes''
   \<and> (10 :: nat) < length ''Voce deve adicionar documentacao''
   \<and> analyze_commit_quality
       \<lparr>enabled = True,
        chat = (\<lambda>messages max_tokens. Inr
          ''Score: 0.75. You should improve test coverage. Also you should add documentation.'')\<rparr>
       [''fix tests'']
     = \<lparr>score = 0.75,
        analysis = PStr
          ''Score: 0.75. You should improve test coverage. Also you should add documentation.'',
        recommendations = []\<rparr>"
proof -
  have e: "extract_recommendations
     (''Pontuacao: 0.75'' @ [CHR 0x0A] @ ''1. Recomendo melhorar a cobertura de testes''
      @ [CHR 0x0A] @ ''- Voce deve adicionar documentacao'')
   = [''Recomendo melhorar a cobertura de testes'', ''Voce deve adicionar documentacao'']"
    by (simp add: extract_recommendations_def split_lines_def has_keyword_def
        recommendation_keywords_def lower_def lower_char_def clean_line_def is_marker_def
        is_digit_def is_space_def strip_def strip_chars_def)
  note t = english_text_score_and_no_recommendation
    [of "''Pontuacao: 0.75'' @ [CHR 0x0A] @ ''1. Recomendo melhorar a cobertura de testes''
         @ [CHR 0x0A] @ ''- Voce deve adicionar documentacao''"
        "\<lparr>enabled = True,
          chat = (\<lambda>messages max_tokens. Inr
            ''Score: 0.75. You should improve test coverage. Also you should add documentation.'')\<rparr>"
        "[''fix tests'']"]
  from t have "\<forall>r \<in> set (extract_recommendations
     (''Pontuacao: 0.75'' @ [CHR 0x0A] @ ''1. Recomendo melhorar a cobertura de testes''
      @ [CHR 0x0A] @ ''- Voce deve adicionar documentacao'')). 10 < length r"
    by blast
  then have l: "(10 :: nat) < length ''Recomendo melhorar a cobertura de testes''"
    "(10 :: nat) < length ''Voce deve adicionar documentacao''"
    unfolding e by simp_all
  from t have a: "analyze_commit_quality
       \<lparr>enabled = True,
        chat = (\<lambda>messages max_tokens. Inr
          ''Score: 0.75. You should improve test coverage. Also you should add documentation.'')\<rparr>
       [''fix tests'']
     = \<lparr>score = 0.75,
        analysis = PStr
          ''Score: 0.75. You should improve test coverage. Also you should add documentation.'',
        recommendations = []\<rparr>"
    by simp
  from e l a show ?thesis
    by blast
qed


section \<open>The cap on the number of recommendations\<close>

lemma detailed_result_length:
  assumes "length canned \<le> 3"
  shows "length (recommendations (detailed_result result canned)) \<le> 3"
  using assms by (simp add: detailed_result_def Let_def)

lemma analyze_commit_quality_length:
  "length (recommendations (analyze_commit_quality self commit_messages)) \<le> 2"
  by (simp add: analyze_commit_quality_def not_available_def extract_recommendations_length
      Let_def split: option.splits)

lemma analyze_project_structure_length:
  "length (recommendations (analyze_project_structure self file_structure readme_content)) \<le> 2"
  by (simp add: analyze_project_structure_def not_available_def extract_recommendations_length
      Let_def split: option.splits)

lemma ai_analyses_length:
  "length (recommendations (fst (ai_analyses ai_analyzer commit_messages file_structure
             readme_content))) \<le> 2
   \<and> length (recommendations (snd (ai_analyses ai_analyzer commit_messages file_structure
             readme_content))) \<le> 2"
  by (simp add: ai_analyses_def analyze_commit_quality_length analyze_project_structure_length
      Let_def split: option.splits)

lemma analyze_commits_detailed_length:
  "length (recommendations (analyze_commits_detailed self commits_data)) \<le> 3"
  by (simp add: analyze_commits_detailed_def analysis_failed_def detailed_result_length
      Let_def split: option.splits)

lemma analyze_issues_detailed_length:
  "length (recommendations (analyze_issues_detailed self issues_data)) \<le> 3"
  by (simp add: analyze_issues_detailed_def analysis_failed_def detailed_result_length
      Let_def split: option.splits)

lemma analyze_reviews_detailed_length:
  "length (recommendations (analyze_reviews_detailed self reviews_data)) \<le> 3"
  by (simp add: analyze_reviews_detailed_def analysis_failed_def detailed_result_length
      Let_def split: option.splits)

text \<open>
  C10. Whatever the answer of the service, the repository-level extractor and the two
  repository-level analyses return at most 2 recommendations, also on the paths that make
  no analysis; each of the three detailed analyses of a user returns at most 3, also on its
  fallback paths and when \<^verbatim>\<open>main\<close> runs without an analyzer.
\<close>

theorem recommendations_within_cap:
  "length (extract_recommendations text) \<le> 2
   \<and> length (recommendations (analyze_commit_quality self commit_messages)) \<le> 2
   \<and> length (recommendations (analyze_project_structure self file_structure readme_content)) \<le> 2
   \<and> length (recommendations (fst (ai_analyses ai_analyzer commit_messages file_structure
               readme_content))) \<le> 2
   \<and> length (recommendations (snd (ai_analyses ai_analyzer commit_messages file_structure
               readme_content))) \<le> 2
   \<and> length (recommendations (analyze_commits_detailed self commits_data)) \<le> 3
   \<and> length (recommendations (analyze_issues_detailed self issues_data)) \<le> 3
   \<and> length (recommendations (analyze_reviews_detailed self reviews_data)) \<le> 3
   \<and> length (recommendations (ai_commits (main_ai_analysis ai_analyzer data))) \<le> 3
   \<and> length (recommendations (ai_issues (main_ai_analysis ai_analyzer data))) \<le> 3
   \<and> length (recommendations (ai_reviews (main_ai_analysis ai_analyzer data))) \<le> 3"
proof -
  have "length (recommendations (ai_commits (main_ai_analysis ai_analyzer data))) \<le> 3"
    by (simp add: main_ai_analysis_def analyze_commits_detailed_length Let_def
        split: option.splits)
  moreover have "length (recommendations (ai_issues (main_ai_analysis ai_analyzer data))) \<le> 3"
    by (simp add: main_ai_analysis_def analyze_issues_detailed_length Let_def
        split: option.splits)
  moreover have "length (recommendations (ai_reviews (main_ai_analysis ai_analyzer data))) \<le> 3"
    by (simp add: main_ai_analysis_def analyze_reviews_detailed_length Let_def
        split: option.splits)
  ultimately show ?thesis
    using extract_recommendations_length [of "text"]
      analyze_commit_quality_length [of self commit_messages]
      analyze_project_structure_length [of self file_structure readme_content]
      ai_analyses_length [of ai_analyzer commit_messages file_structure readme_content]
      analyze_commits_detailed_length [of self commits_data]
      analyze_issues_detailed_length [of self issues_data]
      analyze_reviews_detailed_length [of self reviews_data]
    by blast
qed


text \<open>
  The witness: the service answers with a score and four lines that each hold a keyword.
  The repository-level analysis keeps the first two of them, the detailed analysis of the
  commits the first three.
\<close>

theorem recommendations_within_cap_witness:
  "length (recommendations
     (analyze_commit_quality
        \<lparr>enabled = True,
         chat = (\<lambda>messages max_tokens. Inr
             ''0.6\<newline>- Recomendo mais testes\<newline>- Sugestao: documentar\<newline>- Deve revisar mais\<newline>- Melhorar mensagens'')\<rparr>
        [''fix tests''])) \<le> 2
   \<and> recommendations
       (analyze_commit_quality
          \<lparr>enabled = True,
           chat = (\<lambda>messages max_tokens. Inr
             ''0.6\<newline>- Recomendo mais testes\<newline>- Sugestao: documentar\<newline>- Deve revisar mais\<newline>- Melhorar mensagens'')\<rparr>
          [''fix tests''])
     = [''Recomendo mais testes'', ''Sugestao: documentar'']
   \<and> length (recommendations
       (analyze_commits_detailed
          \<lparr>enabled = True,
           chat = (\<lambda>messages max_tokens. Inr
             ''0.6\<newline>- Recomendo mais testes\<newline>- Sugestao: documentar\<newline>- Deve revisar mais\<newline>- Melhorar mensagens'')\<rparr>
          [\<lparr>c_sha = ''abc'', c_message = ''fix tests'', c_date = 0, c_files_count = 1,
            c_additions = 1, c_deletions = 0\<rparr>])) \<le> 3
   \<and> recommendations
       (analyze_commits_detailed
          \<lparr>enabled = True,
           chat = (\<lambda>messages max_tokens. Inr
             ''0.6\<newline>- Recomendo mais testes\<newline>- Sugestao: documentar\<newline>- Deve revisar mais\<newline>- Melhorar mensagens'')\<rparr>
          [\<lparr>c_sha = ''abc'', c_message = ''fix tests'', c_date = 0, c_files_count = 1,
            c_additions = 1, c_deletions = 0\<rparr>])
     = [''Recomendo mais testes'', ''Sugestao: documentar'',
        ''Deve revisar mais'']"
proof -
  let ?answer = "''0.6\<newline>- Recomendo mais testes\<newline>- Sugestao: documentar\<newline>- Deve revisar mais\<newline>- Melhorar mensagens''"
  let ?self = "\<lparr>enabled = True, chat = (\<lambda>messages max_tokens. Inr ?answer)\<rparr>"
  let ?commit = "\<lparr>c_sha = ''abc'', c_message = ''fix tests'', c_date = 0, c_files_count = 1,
            c_additions = 1, c_deletions = 0\<rparr>"
  have s: "strip ?answer = ?answer"
    by (simp add: strip_def strip_chars_def is_space_def)
  have l: "split_lines ?answer =
      [''0.6'', ''- Recomendo mais testes'',
       ''- Sugestao: documentar'', ''- Deve revisar mais'',
       ''- Melhorar mensagens'']"
    by (simp add: split_lines_def)
  have k: "\<not> has_keyword ''0.6''"
    "has_keyword ''- Recomendo mais testes''"
    "has_keyword ''- Sugestao: documentar''"
    "has_keyword ''- Deve revisar mais''"
    "has_keyword ''- Melhorar mensagens''"
    by code_simp+
  have c: "clean_line ''- Recomendo mais testes''
             = ''Recomendo mais testes''"
    "clean_line ''- Sugestao: documentar''
             = ''Sugestao: documentar''"
    "clean_line ''- Deve revisar mais'' = ''Deve revisar mais''"
    "clean_line ''- Melhorar mensagens'' = ''Melhorar mensagens''"
    by (simp_all add: clean_line_def is_marker_def is_digit_def is_space_def strip_def
        strip_chars_def)
  have d: "strip (strip_chars (\<lambda>c. c = CHR ''-'' \<or> c = CHR '' '')
                    ''- Recomendo mais testes'')
             = ''Recomendo mais testes''"
    "strip (strip_chars (\<lambda>c. c = CHR ''-'' \<or> c = CHR '' '')
                    ''- Sugestao: documentar'')
             = ''Sugestao: documentar''"
    "strip (strip_chars (\<lambda>c. c = CHR ''-'' \<or> c = CHR '' '')
                    ''- Deve revisar mais'')
             = ''Deve revisar mais''"
    "strip (strip_chars (\<lambda>c. c = CHR ''-'' \<or> c = CHR '' '')
                    ''- Melhorar mensagens'')
             = ''Melhorar mensagens''"
    by (simp_all add: is_space_def strip_def strip_chars_def)
  have e: "extract_recommendations ?answer
     = [''Recomendo mais testes'', ''Sugestao: documentar'']"
    unfolding extract_recommendations_def l by (simp add: k c)
  have f: "detailed_recommendations ?answer
     = [''Recomendo mais testes'', ''Sugestao: documentar'',
        ''Deve revisar mais'', ''Melhorar mensagens'']"
    unfolding detailed_recommendations_def l by (simp add: k d)
  have q: "recommendations (analyze_commit_quality ?self [''fix tests''])
     = [''Recomendo mais testes'', ''Sugestao: documentar'']"
    by (simp add: analyze_commit_quality_def call_openai_def Let_def s e)
  have p: "recommendations (analyze_commits_detailed ?self [?commit])
     = [''Recomendo mais testes'', ''Sugestao: documentar'',
        ''Deve revisar mais'']"
    by (simp add: analyze_commits_detailed_def call_openai_def detailed_result_def Let_def s f)
  note t = recommendations_within_cap [of _ ?self "[''fix tests'']" _ _ _ "[?commit]"]
  from t have "length (recommendations (analyze_commit_quality ?self [''fix tests''])) \<le> 2"
    and "length (recommendations (analyze_commits_detailed ?self [?commit])) \<le> 3"
    by blast+
  with q p show ?thesis
    by blast
qed

end
